theory Spec2Isabelle
  imports Main
begin

section \<open>The execution controller of Karmada: data model\<close>

text \<open>
  This theory embeds \<^verbatim>\<open>pkg/controllers/execution/execution_controller.go\<close>.
  The controller is a sequence of calls to collaborators (the control-plane client, the
  member-cluster object watcher, the informer cache, the event recorder, the metrics
  sink). Every such call is written to a trace of effects, oldest first, and the reply
  of a collaborator is a function of the trace before the call and of the call's
  arguments, so a reply may depend on everything that happened earlier. Calls to
  \<^verbatim>\<open>klog\<close> are not modelled.
\<close>

subsection \<open>Errors\<close>

text \<open>
  A Go \<^verbatim>\<open>error\<close> value: an API status error with its reason (what
  \<^verbatim>\<open>apierrors.IsNotFound\<close> and \<^verbatim>\<open>apierrors.IsConflict\<close> look at), a plain
  error with its text (\<^verbatim>\<open>fmt.Errorf\<close>, a JSON decoding error), or the aggregate built
  by \<^verbatim>\<open>errors.NewAggregate\<close>. The Go \<^verbatim>\<open>nil\<close> error is \<open>None\<close> of
  \<open>error option\<close>.
\<close>

datatype StatusReason = StatusReasonNotFound | StatusReasonConflict | StatusReasonOther

datatype error =
    StatusError StatusReason string
  | Errorf string
  | Aggregate "error list"

fun IsNotFound :: "error \<Rightarrow> bool" where
  "IsNotFound (StatusError StatusReasonNotFound msg) = True"
| "IsNotFound e = False"

fun IsConflict :: "error \<Rightarrow> bool" where
  "IsConflict (StatusError StatusReasonConflict msg) = True"
| "IsConflict e = False"

text \<open>\<^verbatim>\<open>errors.NewAggregate\<close>: \<^verbatim>\<open>nil\<close> for an empty list, the aggregate otherwise
  (the lists of this controller hold no \<^verbatim>\<open>nil\<close> entry).\<close>

definition NewAggregate :: "error list \<Rightarrow> error option" where
  "NewAggregate errs = (if errs = [] then None else Some (Aggregate errs))"

subsection \<open>Objects\<close>

text \<open>\<^verbatim>\<open>metav1.Time\<close> as a number; \<open>0\<close> is Go's zero time. A \<^verbatim>\<open>*metav1.Time\<close> is an
  option, and \<^verbatim>\<open>IsZero\<close> holds of \<^verbatim>\<open>nil\<close> and of the zero time.\<close>

type_synonym time = nat

definition IsZero :: "time option \<Rightarrow> bool" where
  "IsZero t = (case t of None \<Rightarrow> True | Some v \<Rightarrow> v = 0)"

datatype ConditionStatus = ConditionTrue | ConditionFalse | ConditionUnknown

record Condition =
  cond_Type :: string
  cond_Status :: ConditionStatus
  cond_Reason :: string
  cond_Message :: string
  cond_LastTransitionTime :: time
  cond_ObservedGeneration :: int

text \<open>\<^verbatim>\<open>workv1alpha1.WorkApplied\<close>, the type of the condition this controller owns.\<close>

definition WorkApplied :: string where
  "WorkApplied = ''Applied''"

text \<open>A Work: \<open>Manifests\<close> holds the raw bytes of \<^verbatim>\<open>work.Spec.Workload.Manifests\<close> in
  order, \<open>Conditions\<close> is \<^verbatim>\<open>work.Status.Conditions\<close>. A \<^verbatim>\<open>nil\<close> label map is the
  empty map.\<close>

record Work =
  work_Namespace :: string
  work_Name :: string
  work_Labels :: "string \<rightharpoonup> string"
  work_DeletionTimestamp :: "time option"
  work_Finalizers :: "string list"
  Manifests :: "string list"
  Conditions :: "Condition list"

text \<open>Modelled from the spec: the Cluster type and \<^verbatim>\<open>util.IsClusterReady\<close> are not among
  the sources; a cluster is its identity, its readiness flag (the value of
  \<^verbatim>\<open>util.IsClusterReady(&cluster.Status)\<close>) and its deletion marker.\<close>

record Cluster =
  cluster_Name :: string
  cluster_Ready :: bool
  cluster_DeletionTimestamp :: "time option"

definition IsClusterReady :: "Cluster \<Rightarrow> bool" where
  "IsClusterReady cluster = cluster_Ready cluster"

text \<open>An \<^verbatim>\<open>unstructured.Unstructured\<close> object, with the fields the controller reads or
  writes.\<close>

record Unstructured =
  obj_Kind :: string
  obj_Namespace :: string
  obj_Name :: string
  obj_Labels :: "string \<rightharpoonup> string"

text \<open>Modelled from the spec: \<^verbatim>\<open>keys.FederatedKey\<close> is not among the sources; the cache
  is looked up by group/version/kind, namespace and name within a cluster's scope.\<close>

record FederatedKey =
  key_Cluster :: string
  key_GroupVersionKind :: string
  key_Namespace :: string
  key_Name :: string

record ObjectReference =
  ref_Kind :: string
  ref_Namespace :: string
  ref_Name :: string

type_synonym NamespacedName = "string \<times> string"

datatype EventType = EventTypeNormal | EventTypeWarning

datatype EventReason = EventReasonSyncWorkloadFailed | EventReasonSyncWorkloadSucceed

text \<open>\<^verbatim>\<open>controllerruntime.Result\<close>; \<^verbatim>\<open>Result{}\<close> asks for no requeue.\<close>

record Result =
  Requeue :: bool
  RequeueAfter :: nat

definition Result_empty :: Result where
  "Result_empty = \<lparr>Requeue = False, RequeueAfter = 0\<rparr>"

subsection \<open>Effects and collaborators\<close>

datatype effect =
    ClientGet NamespacedName
  | GetCluster string
  | GetObjectFromCache FederatedKey
  | Create string Unstructured
  | Update string Unstructured Unstructured
  | Delete string Unstructured
  | ClientUpdate Work
  | StatusUpdate Work
  | Event Work EventType EventReason string
  | Eventf ObjectReference EventType EventReason string
  | ObserveSyncWorkloadLatency "error option"

text \<open>
  The collaborators and the declarations of the repository that are not among the
  sources, as parameters: two constants (\<^verbatim>\<open>util.ExecutionControllerFinalizer\<close>,
  \<^verbatim>\<open>workv1alpha2.WorkPermanentIDLabel\<close>), the clock, the \<^verbatim>\<open>Error()\<close> method of errors,
  and the replies of every call. A reply that takes a trace sees the effects issued
  before the call.
\<close>

record env =
  ExecutionControllerFinalizer :: string
  WorkPermanentIDLabel :: string
  Now :: "effect list \<Rightarrow> time"
  Error :: "error \<Rightarrow> string"
  on_ClientGet :: "effect list \<Rightarrow> NamespacedName \<Rightarrow> error + Work"
  GetClusterName :: "string \<Rightarrow> error + string"
  on_GetCluster :: "effect list \<Rightarrow> string \<Rightarrow> error + Cluster"
  UnmarshalJSON :: "string \<Rightarrow> error + Unstructured"
  FederatedKeyFunc :: "string \<Rightarrow> Unstructured \<Rightarrow> error + FederatedKey"
  on_GetObjectFromCache :: "effect list \<Rightarrow> FederatedKey \<Rightarrow> error + Unstructured"
  on_Create :: "effect list \<Rightarrow> string \<Rightarrow> Unstructured \<Rightarrow> error option"
  on_Update :: "effect list \<Rightarrow> string \<Rightarrow> Unstructured \<Rightarrow> Unstructured \<Rightarrow> error option"
  on_Delete :: "effect list \<Rightarrow> string \<Rightarrow> Unstructured \<Rightarrow> error option"
  on_ClientUpdate :: "effect list \<Rightarrow> Work \<Rightarrow> error option"
  on_StatusUpdate :: "effect list \<Rightarrow> Work \<Rightarrow> error option"
  GenEventRef :: "Unstructured \<Rightarrow> error + ObjectReference"

section \<open>Helpers of the libraries\<close>

text \<open>\<^verbatim>\<open>%d\<close> of \<^verbatim>\<open>fmt.Sprintf\<close> on a count: its decimal digits.\<close>

definition digit :: "nat \<Rightarrow> char" where
  "digit d = ''0123456789'' ! d"

fun show_nat :: "nat \<Rightarrow> string" where
  "show_nat n = (if n < 10 then [digit n] else show_nat (n div 10) @ [digit (n mod 10)])"

declare show_nat.simps [simp del]

text \<open>\<^verbatim>\<open>klog.KObj\<close> rendered by \<^verbatim>\<open>%s\<close>: namespace/name, or the name alone.\<close>

definition KObj :: "Unstructured \<Rightarrow> string" where
  "KObj object =
     (if obj_Namespace object \<noteq> [] then obj_Namespace object @ ''/'' @ obj_Name object
      else obj_Name object)"

text \<open>\<^verbatim>\<open>util.GetLabelValue\<close> and \<^verbatim>\<open>util.MergeLabel\<close>.\<close>

definition GetLabelValue :: "(string \<rightharpoonup> string) \<Rightarrow> string \<Rightarrow> string" where
  "GetLabelValue labels labelKey = (case labels labelKey of None \<Rightarrow> [] | Some v \<Rightarrow> v)"

definition MergeLabel :: "Unstructured \<Rightarrow> string \<Rightarrow> string \<Rightarrow> Unstructured" where
  "MergeLabel object labelKey labelValue =
     object\<lparr>obj_Labels := (obj_Labels object)(labelKey \<mapsto> labelValue)\<rparr>"

text \<open>\<^verbatim>\<open>controllerutil.ContainsFinalizer\<close> and \<^verbatim>\<open>controllerutil.RemoveFinalizer\<close>
  (every occurrence of the token goes).\<close>

definition ContainsFinalizer :: "Work \<Rightarrow> string \<Rightarrow> bool" where
  "ContainsFinalizer work finalizer = (finalizer \<in> set (work_Finalizers work))"

definition RemoveFinalizer :: "Work \<Rightarrow> string \<Rightarrow> Work" where
  "RemoveFinalizer work finalizer =
     work\<lparr>work_Finalizers := filter (\<lambda>f. f \<noteq> finalizer) (work_Finalizers work)\<rparr>"

text \<open>\<^verbatim>\<open>meta.FindStatusCondition\<close>: the first condition of the type.\<close>

fun FindStatusCondition :: "Condition list \<Rightarrow> string \<Rightarrow> Condition option" where
  "FindStatusCondition [] conditionType = None"
| "FindStatusCondition (c # cs) conditionType =
     (if cond_Type c = conditionType then Some c else FindStatusCondition cs conditionType)"

text \<open>\<^verbatim>\<open>meta.SetStatusCondition\<close>: a condition of a new type is appended; on the first
  condition of the same type the status (with the transition time, when the status
  changes), the reason, the message and the observed generation are overwritten.
  \<open>now\<close> is the clock read that stands in for a zero transition time.\<close>

definition update_existing :: "time \<Rightarrow> Condition \<Rightarrow> Condition \<Rightarrow> Condition" where
  "update_existing now existingCondition newCondition =
     (let c1 = (if cond_Status existingCondition \<noteq> cond_Status newCondition
                then existingCondition\<lparr>
                       cond_Status := cond_Status newCondition,
                       cond_LastTransitionTime :=
                         (if cond_LastTransitionTime newCondition \<noteq> 0
                          then cond_LastTransitionTime newCondition else now)\<rparr>
                else existingCondition)
      in c1\<lparr>cond_Reason := cond_Reason newCondition,
             cond_Message := cond_Message newCondition,
             cond_ObservedGeneration := cond_ObservedGeneration newCondition\<rparr>)"

fun replace_first :: "time \<Rightarrow> Condition list \<Rightarrow> Condition \<Rightarrow> Condition list" where
  "replace_first now [] newCondition = []"
| "replace_first now (c # cs) newCondition =
     (if cond_Type c = cond_Type newCondition then update_existing now c newCondition # cs
      else c # replace_first now cs newCondition)"

definition SetStatusCondition :: "time \<Rightarrow> Condition list \<Rightarrow> Condition \<Rightarrow> Condition list" where
  "SetStatusCondition now conditions newCondition =
     (case FindStatusCondition conditions (cond_Type newCondition) of
        None \<Rightarrow>
          conditions @
            [if cond_LastTransitionTime newCondition = 0
             then newCondition\<lparr>cond_LastTransitionTime := now\<rparr> else newCondition]
      | Some existingCondition \<Rightarrow> replace_first now conditions newCondition)"

text \<open>\<^verbatim>\<open>retry.RetryOnConflict\<close> over a closure \<open>fn\<close> that reads and writes the state
  \<open>s\<close>: at most \<open>steps\<close> calls; a \<^verbatim>\<open>nil\<close> result or an error that is not a conflict
  ends the loop; when the steps run out the last conflict is returned.
  \<^verbatim>\<open>retry.DefaultRetry\<close> has five steps.\<close>

fun RetryOnConflict ::
  "nat \<Rightarrow> ('s \<Rightarrow> error option \<times> 's) \<Rightarrow> error option \<Rightarrow> 's \<Rightarrow> error option \<times> 's" where
  "RetryOnConflict 0 fn lastErr s = (lastErr, s)"
| "RetryOnConflict (Suc steps) fn lastErr s =
     (case fn s of
        (None, s') \<Rightarrow> (None, s')
      | (Some err, s') \<Rightarrow>
          if IsConflict err then RetryOnConflict steps fn (Some err) s' else (Some err, s'))"

definition DefaultRetry :: nat where
  "DefaultRetry = 5"

section \<open>The controller\<close>

subsection \<open>eventf\<close>

definition eventf ::
  "env \<Rightarrow> Unstructured \<Rightarrow> EventType \<Rightarrow> EventReason \<Rightarrow> string \<Rightarrow> effect list \<Rightarrow> effect list" where
  "eventf env object eventType reason message tr =
     (case GenEventRef env object of
        Inl err \<Rightarrow> tr
      | Inr ref \<Rightarrow> tr @ [Eventf ref eventType reason message])"

subsection \<open>tryCreateOrUpdateWorkload\<close>

definition tryCreateOrUpdateWorkload ::
  "env \<Rightarrow> string \<Rightarrow> Unstructured \<Rightarrow> effect list \<Rightarrow> error option \<times> effect list" where
  "tryCreateOrUpdateWorkload env clusterName workload tr =
     (case FederatedKeyFunc env clusterName workload of
        Inl err \<Rightarrow> (Some err, tr)
      | Inr fedKey \<Rightarrow>
          (let tr1 = tr @ [GetObjectFromCache fedKey] in
           case on_GetObjectFromCache env tr fedKey of
             Inl err \<Rightarrow>
               if \<not> IsNotFound err then (Some err, tr1)
               else (on_Create env tr1 clusterName workload, tr1 @ [Create clusterName workload])
           | Inr clusterObj \<Rightarrow>
               (on_Update env tr1 clusterName workload clusterObj,
                tr1 @ [Update clusterName workload clusterObj])))"

subsection \<open>updateAppliedCondition\<close>

text \<open>
  The closure passed to \<^verbatim>\<open>RetryOnConflict\<close> reads and writes the variable
  \<^verbatim>\<open>work\<close>, a pointer. It first points to the caller's Work; after a failed write and
  a successful re-read it points to the fetched copy, and the caller's Work is written
  no more. The closure's state is the caller's Work, the fetched copy when the pointer
  has moved, and the trace. A successful write copies the server's reply into the
  object; the reply is taken to agree with what was sent on the fields of this model.
\<close>

type_synonym closure = "Work \<times> Work option \<times> effect list"

definition updateAppliedCondition_fn :: "env \<Rightarrow> Condition \<Rightarrow> closure \<Rightarrow> error option \<times> closure" where
  "updateAppliedCondition_fn env newWorkAppliedCondition s =
     (case s of (callerWork, fetched, tr) \<Rightarrow>
        (let work0 = (case fetched of None \<Rightarrow> callerWork | Some updated \<Rightarrow> updated);
             work = work0\<lparr>Conditions :=
                      SetStatusCondition (Now env tr) (Conditions work0) newWorkAppliedCondition\<rparr>;
             callerWork' = (case fetched of None \<Rightarrow> work | Some updated \<Rightarrow> callerWork);
             fetched' = (case fetched of None \<Rightarrow> None | Some updated \<Rightarrow> Some work);
             tr1 = tr @ [StatusUpdate work]
         in case on_StatusUpdate env tr work of
              None \<Rightarrow> (None, (callerWork', fetched', tr1))
            | Some updateErr \<Rightarrow>
                (let tr2 = tr1 @ [ClientGet (work_Namespace work, work_Name work)] in
                 case on_ClientGet env tr1 (work_Namespace work, work_Name work) of
                   Inr updated \<Rightarrow> (Some updateErr, (callerWork', Some updated, tr2))
                 | Inl err \<Rightarrow> (Some updateErr, (callerWork', fetched', tr2)))))"

definition updateAppliedCondition ::
  "env \<Rightarrow> Work \<Rightarrow> ConditionStatus \<Rightarrow> string \<Rightarrow> string \<Rightarrow> effect list \<Rightarrow>
   error option \<times> Work \<times> effect list" where
  "updateAppliedCondition env work status reason message tr =
     (let newWorkAppliedCondition =
            \<lparr>cond_Type = WorkApplied, cond_Status = status, cond_Reason = reason,
             cond_Message = message, cond_LastTransitionTime = Now env tr,
             cond_ObservedGeneration = 0\<rparr>
      in case RetryOnConflict DefaultRetry (updateAppliedCondition_fn env newWorkAppliedCondition)
                None (work, None, tr) of
           (err, (work', fetched, tr')) \<Rightarrow> (err, work', tr'))"

subsection \<open>syncToClusters\<close>

text \<open>The body of the loop over the manifests, on the loop's variables: the errors so
  far, \<^verbatim>\<open>syncSucceedNum\<close> and the trace.\<close>

definition syncToClusters_body ::
  "env \<Rightarrow> string \<Rightarrow> Work \<Rightarrow> string \<Rightarrow> error list \<times> nat \<times> effect list \<Rightarrow>
   error list \<times> nat \<times> effect list" where
  "syncToClusters_body env clusterName work manifest s =
     (case s of (errs, syncSucceedNum, tr) \<Rightarrow>
        (case UnmarshalJSON env manifest of
           Inl err \<Rightarrow> (errs @ [err], syncSucceedNum, tr)
         | Inr unmarshalled \<Rightarrow>
             (let workload = MergeLabel unmarshalled (WorkPermanentIDLabel env)
                               (GetLabelValue (work_Labels work) (WorkPermanentIDLabel env))
              in case tryCreateOrUpdateWorkload env clusterName workload tr of
                   (Some err, tr1) \<Rightarrow>
                     (errs @ [err], syncSucceedNum,
                      eventf env workload EventTypeWarning EventReasonSyncWorkloadFailed
                        (''Failed to create or update resource('' @ KObj workload @
                         '') in member cluster('' @ clusterName @ ''): '' @ Error env err) tr1)
                 | (None, tr1) \<Rightarrow>
                     (errs, syncSucceedNum + 1,
                      eventf env workload EventTypeNormal EventReasonSyncWorkloadSucceed
                        (''Successfully applied resource('' @ obj_Namespace workload @ ''/'' @
                         obj_Name workload @ '') to cluster '' @ clusterName) tr1))))"

fun syncToClusters_loop ::
  "env \<Rightarrow> string \<Rightarrow> Work \<Rightarrow> string list \<Rightarrow> error list \<times> nat \<times> effect list \<Rightarrow>
   error list \<times> nat \<times> effect list" where
  "syncToClusters_loop env clusterName work [] s = s"
| "syncToClusters_loop env clusterName work (manifest # manifests) s =
     syncToClusters_loop env clusterName work manifests
       (syncToClusters_body env clusterName work manifest s)"

definition syncToClusters ::
  "env \<Rightarrow> string \<Rightarrow> Work \<Rightarrow> effect list \<Rightarrow> error option \<times> Work \<times> effect list" where
  "syncToClusters env clusterName work tr =
     (case syncToClusters_loop env clusterName work (Manifests work) ([], 0, tr) of
        (errs, syncSucceedNum, tr1) \<Rightarrow>
          if length errs > 0 then
            (let total = length (Manifests work);
                 message = ''Failed to apply all manifests ('' @ show_nat syncSucceedNum @ ''/'' @
                           show_nat total @ ''): '' @ Error env (Aggregate errs)
             in case updateAppliedCondition env work ConditionFalse ''AppliedFailed'' message tr1 of
                  (Some err, work', tr2) \<Rightarrow> (NewAggregate (errs @ [err]), work', tr2)
                | (None, work', tr2) \<Rightarrow> (NewAggregate errs, work', tr2))
          else updateAppliedCondition env work ConditionTrue ''AppliedSuccessful''
                 ''Manifest has been successfully applied'' tr1)"

subsection \<open>syncWork\<close>

definition syncWork ::
  "env \<Rightarrow> string \<Rightarrow> Work \<Rightarrow> effect list \<Rightarrow> (Result \<times> error option) \<times> effect list" where
  "syncWork env clusterName work tr =
     (case syncToClusters env clusterName work tr of
        (err, work', tr1) \<Rightarrow>
          (let tr2 = tr1 @ [ObserveSyncWorkloadLatency err] in
           case err of
             Some e \<Rightarrow>
               ((Result_empty, Some e),
                tr2 @ [Event work' EventTypeWarning EventReasonSyncWorkloadFailed
                         (''Failed to sync work('' @ work_Namespace work' @ ''/'' @ work_Name work' @
                          '') to cluster('' @ clusterName @ ''), err: '' @ Error env e)])
           | None \<Rightarrow>
               ((Result_empty, None),
                tr2 @ [Event work' EventTypeNormal EventReasonSyncWorkloadSucceed
                         (''Sync work('' @ work_Namespace work' @ ''/'' @ work_Name work' @
                          '') to cluster('' @ clusterName @ '') successful.'')])))"

subsection \<open>tryDeleteWorkload\<close>

fun tryDeleteWorkload_loop ::
  "env \<Rightarrow> string \<Rightarrow> string list \<Rightarrow> effect list \<Rightarrow> error option \<times> effect list" where
  "tryDeleteWorkload_loop env clusterName [] tr = (None, tr)"
| "tryDeleteWorkload_loop env clusterName (manifest # manifests) tr =
     (case UnmarshalJSON env manifest of
        Inl err \<Rightarrow> (Some err, tr)
      | Inr workload \<Rightarrow>
          (case on_Delete env tr clusterName workload of
             Some err \<Rightarrow> (Some err, tr @ [Delete clusterName workload])
           | None \<Rightarrow>
               tryDeleteWorkload_loop env clusterName manifests
                 (tr @ [Delete clusterName workload])))"

definition tryDeleteWorkload ::
  "env \<Rightarrow> string \<Rightarrow> Work \<Rightarrow> effect list \<Rightarrow> error option \<times> effect list" where
  "tryDeleteWorkload env clusterName work tr =
     tryDeleteWorkload_loop env clusterName (Manifests work) tr"

subsection \<open>removeFinalizer\<close>

definition removeFinalizer ::
  "env \<Rightarrow> Work \<Rightarrow> effect list \<Rightarrow> (Result \<times> error option) \<times> Work \<times> effect list" where
  "removeFinalizer env work tr =
     (if \<not> ContainsFinalizer work (ExecutionControllerFinalizer env)
      then ((Result_empty, None), work, tr)
      else
        (let work' = RemoveFinalizer work (ExecutionControllerFinalizer env) in
         case on_ClientUpdate env tr work' of
           Some err \<Rightarrow> ((Result_empty, Some err), work', tr @ [ClientUpdate work'])
         | None \<Rightarrow> ((Result_empty, None), work', tr @ [ClientUpdate work'])))"

subsection \<open>Reconcile\<close>

text \<open>In the deletion branch, \<open>early\<close> is the error of an early return (a failed
  teardown, or a cluster that is neither ready nor terminating); without one the
  branch falls through to \<^verbatim>\<open>removeFinalizer\<close>. The Work is local to the call, so the
  result is what \<^verbatim>\<open>Reconcile\<close> returns and the trace.\<close>

definition Reconcile ::
  "env \<Rightarrow> NamespacedName \<Rightarrow> effect list \<Rightarrow> (Result \<times> error option) \<times> effect list" where
  "Reconcile env req tr =
     (let tr1 = tr @ [ClientGet req] in
      case on_ClientGet env tr req of
        Inl err \<Rightarrow>
          if IsNotFound err then ((Result_empty, None), tr1)
          else ((Result_empty, Some err), tr1)
      | Inr work \<Rightarrow>
          (case GetClusterName env (work_Namespace work) of
             Inl err \<Rightarrow> ((Result_empty, Some err), tr1)
           | Inr clusterName \<Rightarrow>
               (let tr2 = tr1 @ [GetCluster clusterName] in
                case on_GetCluster env tr1 clusterName of
                  Inl err \<Rightarrow> ((Result_empty, Some err), tr2)
                | Inr cluster \<Rightarrow>
                    if \<not> IsZero (work_DeletionTimestamp work) then
                      (case (if IsClusterReady cluster
                             then tryDeleteWorkload env clusterName work tr2
                             else if IsZero (cluster_DeletionTimestamp cluster)
                             then (Some (Errorf (''cluster('' @ cluster_Name cluster @ '') not ready'')), tr2)
                             else (None, tr2)) of
                         (Some early, tr3) \<Rightarrow> ((Result_empty, Some early), tr3)
                       | (None, tr3) \<Rightarrow>
                           (case removeFinalizer env work tr3 of
                              (res, work', tr4) \<Rightarrow> (res, tr4)))
                    else if \<not> IsClusterReady cluster then
                      ((Result_empty, Some (Errorf (''cluster('' @ cluster_Name cluster @ '') not ready''))), tr2)
                    else syncWork env clusterName work tr2)))"

section \<open>Observations on traces and on a Work\<close>

text \<open>The removal of a finalizer is the one place that writes a Work itself
  (\<^verbatim>\<open>c.Client.Update\<close>); a teardown is a sequence of \<^verbatim>\<open>ObjectWatcher.Delete\<close> calls.
  The effects of one kind issued so far are the trace filtered by these tests.\<close>

fun is_ClientUpdate :: "effect \<Rightarrow> bool" where
  "is_ClientUpdate (ClientUpdate w) = True"
| "is_ClientUpdate e = False"

definition has_Applied :: "Work \<Rightarrow> ConditionStatus \<Rightarrow> string \<Rightarrow> string \<Rightarrow> bool" where
  "has_Applied work status reason message =
     (case FindStatusCondition (Conditions work) WorkApplied of
        None \<Rightarrow> False
      | Some c \<Rightarrow> cond_Status c = status \<and> cond_Reason c = reason \<and> cond_Message c = message)"

fun is_Delete :: "effect \<Rightarrow> bool" where
  "is_Delete (Delete c w) = True"
| "is_Delete e = False"

fun is_Apply :: "effect \<Rightarrow> bool" where
  "is_Apply (Create c w) = True"
| "is_Apply (Update c w b) = True"
| "is_Apply e = False"

section \<open>A concrete member cluster\<close>

text \<open>One environment to run the controller on: the Work \<open>nginx\<close> of the execution
  namespace of \<open>member1\<close>, whose second manifest is not JSON; an empty informer cache;
  collaborators that accept every write.\<close>

definition ex_deployment :: Unstructured where
  "ex_deployment = \<lparr>obj_Kind = ''Deployment'', obj_Namespace = ''default'', obj_Name = ''nginx'',
                     obj_Labels = Map.empty\<rparr>"

definition ex_configmap :: Unstructured where
  "ex_configmap = \<lparr>obj_Kind = ''ConfigMap'', obj_Namespace = ''default'', obj_Name = ''conf'',
                    obj_Labels = Map.empty\<rparr>"

definition ex_work :: Work where
  "ex_work = \<lparr>work_Namespace = ''karmada-es-member1'', work_Name = ''nginx'',
               work_Labels = Map.empty, work_DeletionTimestamp = None,
               work_Finalizers = [''karmada.io/execution-controller''],
               Manifests = [''deployment'', ''not json''], Conditions = []\<rparr>"

definition ex_req :: NamespacedName where
  "ex_req = (''karmada-es-member1'', ''nginx'')"

definition ex_Error :: "error \<Rightarrow> string" where
  "ex_Error e = (case e of StatusError r msg \<Rightarrow> msg | Errorf msg \<Rightarrow> msg | Aggregate es \<Rightarrow> ''aggregate'')"

definition ex_env :: "Work \<Rightarrow> Cluster \<Rightarrow> env" where
  "ex_env work cluster =
     \<lparr>ExecutionControllerFinalizer = ''karmada.io/execution-controller'',
      WorkPermanentIDLabel = ''work.karmada.io/permanent-id'',
      Now = (\<lambda>tr. Suc (length tr)),
      Error = ex_Error,
      on_ClientGet = (\<lambda>tr req. if req = ex_req then Inr work
                       else Inl (StatusError StatusReasonNotFound ''work not found'')),
      GetClusterName = (\<lambda>ns. if take 11 ns = ''karmada-es-'' then Inr (drop 11 ns)
                         else Inl (Errorf ''not an execution namespace'')),
      on_GetCluster = (\<lambda>tr n. Inr cluster),
      UnmarshalJSON = (\<lambda>raw. if raw = ''deployment'' then Inr ex_deployment
                        else if raw = ''configmap'' then Inr ex_configmap
                        else Inl (Errorf ''invalid character'')),
      FederatedKeyFunc = (\<lambda>c object. Inr \<lparr>key_Cluster = c, key_GroupVersionKind = obj_Kind object,
                           key_Namespace = obj_Namespace object, key_Name = obj_Name object\<rparr>),
      on_GetObjectFromCache = (\<lambda>tr k. Inl (StatusError StatusReasonNotFound ''object not found'')),
      on_Create = (\<lambda>tr c object. None),
      on_Update = (\<lambda>tr c object clusterObj. None),
      on_Delete = (\<lambda>tr c object. None),
      on_ClientUpdate = (\<lambda>tr w. None),
      on_StatusUpdate = (\<lambda>tr w. None),
      GenEventRef = (\<lambda>object. Inr \<lparr>ref_Kind = obj_Kind object, ref_Namespace = obj_Namespace object,
                      ref_Name = obj_Name object\<rparr>)\<rparr>"

definition ex_cluster :: Cluster where
  "ex_cluster = \<lparr>cluster_Name = ''member1'', cluster_Ready = True, cluster_DeletionTimestamp = None\<rparr>"

section \<open>Lemmas on the loops and on the trace\<close>

lemmas run_defs = Reconcile_def syncWork_def IsZero_def IsClusterReady_def syncToClusters_def
  syncToClusters_body_def tryCreateOrUpdateWorkload_def eventf_def MergeLabel_def GetLabelValue_def
  KObj_def updateAppliedCondition_def updateAppliedCondition_fn_def DefaultRetry_def
  SetStatusCondition_def WorkApplied_def NewAggregate_def Let_def eval_nat_numeral
  tryDeleteWorkload_def removeFinalizer_def ContainsFinalizer_def RemoveFinalizer_def Result_empty_def

lemmas ex_defs = ex_env_def ex_work_def ex_cluster_def ex_req_def ex_deployment_def
  ex_configmap_def ex_Error_def

lemma body_shape:
  "\<exists>errs' n' new. syncToClusters_body env cn work m (errs, n, tr) = (errs', n', tr @ new) \<and>
     ((\<exists>e. errs' = errs @ [e] \<and> n' = n) \<or> (errs' = errs \<and> n' = Suc n))"
  by (auto simp: syncToClusters_body_def tryCreateOrUpdateWorkload_def eventf_def Let_def
      split: sum.splits option.splits prod.splits)

lemma loop_append:
  "syncToClusters_loop env cn work (ms1 @ ms2) s =
   syncToClusters_loop env cn work ms2 (syncToClusters_loop env cn work ms1 s)"
  by (induction ms1 arbitrary: s) auto

lemma loop_count:
  "syncToClusters_loop env cn work ms (errs, n, tr) = (errs', n', tr') \<Longrightarrow>
   n' + length errs' = n + length errs + length ms \<and> (\<exists>new. errs' = errs @ new) \<and> (\<exists>t. tr' = tr @ t)"
proof (induction ms arbitrary: errs n tr)
  case Nil
  then show ?case by simp
next
  case (Cons m ms)
  obtain e1 n1 new where b: "syncToClusters_body env cn work m (errs, n, tr) = (e1, n1, tr @ new)"
    and c: "(\<exists>e. e1 = errs @ [e] \<and> n1 = n) \<or> (e1 = errs \<and> n1 = Suc n)"
    using body_shape by blast
  from Cons.prems b have "syncToClusters_loop env cn work ms (e1, n1, tr @ new) = (errs', n', tr')"
    by simp
  from Cons.IH[OF this] c show ?case by auto
qed

lemma Find_replace_first:
  "FindStatusCondition cs (cond_Type c) = Some x \<Longrightarrow>
   \<exists>y. FindStatusCondition (replace_first now cs c) (cond_Type c) = Some y \<and>
       cond_Status y = cond_Status c \<and> cond_Reason y = cond_Reason c \<and> cond_Message y = cond_Message c"
  by (induction cs) (auto simp: update_existing_def Let_def)

lemma Find_append_None:
  "FindStatusCondition cs t = None \<Longrightarrow> FindStatusCondition (cs @ [c]) t = (if cond_Type c = t then Some c else None)"
  by (induction cs) (auto split: if_splits)

lemma Find_SetStatusCondition:
  "\<exists>y. FindStatusCondition (SetStatusCondition now cs c) (cond_Type c) = Some y \<and>
       cond_Status y = cond_Status c \<and> cond_Reason y = cond_Reason c \<and> cond_Message y = cond_Message c"
proof (cases "FindStatusCondition cs (cond_Type c)")
  case None
  then show ?thesis by (simp add: SetStatusCondition_def Find_append_None)
next
  case (Some x)
  from Find_replace_first[OF this, of now] show ?thesis using Some by (simp add: SetStatusCondition_def)
qed

lemma RetryOnConflict_invariant:
  "(\<And>s. P s \<Longrightarrow> P (snd (fn s))) \<Longrightarrow> P s \<Longrightarrow> P (snd (RetryOnConflict steps fn lastErr s))"
proof (induction steps arbitrary: s lastErr)
  case 0
  then show ?case by simp
next
  case (Suc steps)
  obtain r s' where f: "fn s = (r, s')" by (cases "fn s")
  have "P s'" using Suc.prems(1)[OF Suc.prems(2)] f by simp
  then show ?case using Suc.IH[OF Suc.prems(1), of s'] f by (auto split: option.splits)
qed

lemma fn_invariant:
  assumes "cond_Type c = WorkApplied"
    and "has_Applied (fst s) (cond_Status c) (cond_Reason c) (cond_Message c) \<and>
         (\<exists>rest. snd (snd s) = pre @ rest) \<and> fst s = w0\<lparr>Conditions := Conditions (fst s)\<rparr>"
  shows "has_Applied (fst (snd (updateAppliedCondition_fn env c s))) (cond_Status c) (cond_Reason c) (cond_Message c) \<and>
         (\<exists>rest. snd (snd (snd (updateAppliedCondition_fn env c s))) = pre @ rest) \<and>
         fst (snd (updateAppliedCondition_fn env c s)) =
           w0\<lparr>Conditions := Conditions (fst (snd (updateAppliedCondition_fn env c s)))\<rparr>"
proof -
  obtain cw f tr where s: "s = (cw, f, tr)" by (cases s)
  from Find_SetStatusCondition[of "Now env tr" "Conditions cw" c] assms(1)
  have set: "has_Applied (cw\<lparr>Conditions := SetStatusCondition (Now env tr) (Conditions cw) c\<rparr>)
               (cond_Status c) (cond_Reason c) (cond_Message c)"
    by (auto simp: has_Applied_def)
  from assms(2) s have eq: "cw = w0\<lparr>Conditions := Conditions cw\<rparr>" by simp
  have eq': "cw\<lparr>Conditions := x\<rparr> = w0\<lparr>Conditions := x\<rparr>" for x
    by (subst eq) simp
  show ?thesis
    using assms(2) set eq'
    by (cases f) (auto simp: s updateAppliedCondition_fn_def Let_def split: option.splits sum.splits)
qed

lemma RetryOnConflict_first:
  assumes "P (snd (fn s))" and "\<And>s. P s \<Longrightarrow> P (snd (fn s))"
  shows "P (snd (RetryOnConflict (Suc steps) fn lastErr s))"
proof -
  obtain r s' where f: "fn s = (r, s')" by (cases "fn s")
  with assms(1) have "P s'" by simp
  from RetryOnConflict_invariant[where P = P, OF assms(2) this]
  have "P (snd (RetryOnConflict steps fn l s'))" for l by simp
  with f \<open>P s'\<close> show ?thesis by (auto split: option.splits)
qed

lemma fn_first:
  assumes "cond_Type c = WorkApplied"
  shows "\<exists>r f rest. updateAppliedCondition_fn env c (work, None, tr) =
           (r, (work\<lparr>Conditions := SetStatusCondition (Now env tr) (Conditions work) c\<rparr>, f,
                tr @ StatusUpdate (work\<lparr>Conditions := SetStatusCondition (Now env tr) (Conditions work) c\<rparr>) # rest))"
  by (auto simp: updateAppliedCondition_fn_def Let_def split: option.splits sum.splits)

lemma updateAppliedCondition_sets:
  assumes "updateAppliedCondition env work status reason message tr = (err, work', tr')"
  shows "has_Applied work' status reason message \<and>
         (\<exists>w rest. tr' = tr @ StatusUpdate w # rest \<and> has_Applied w status reason message) \<and>
         work' = work\<lparr>Conditions := Conditions work'\<rparr>"
proof -
  define c where "c = \<lparr>cond_Type = WorkApplied, cond_Status = status, cond_Reason = reason,
             cond_Message = message, cond_LastTransitionTime = Now env tr,
             cond_ObservedGeneration = 0\<rparr>"
  have ct: "cond_Type c = WorkApplied" "cond_Status c = status" "cond_Reason c = reason"
    "cond_Message c = message" by (simp_all add: c_def)
  define w1 where "w1 = work\<lparr>Conditions := SetStatusCondition (Now env tr) (Conditions work) c\<rparr>"
  obtain r f rest where first: "updateAppliedCondition_fn env c (work, None, tr) =
      (r, (w1, f, tr @ StatusUpdate w1 # rest))"
    using fn_first[OF ct(1), of env work tr] unfolding w1_def by blast
  have hw1: "has_Applied w1 status reason message"
    using Find_SetStatusCondition[of "Now env tr" "Conditions work" c] ct
    by (auto simp: has_Applied_def w1_def)
  let ?P = "\<lambda>s. has_Applied (fst s) (cond_Status c) (cond_Reason c) (cond_Message c) \<and>
         (\<exists>rest. snd (snd s) = (tr @ [StatusUpdate w1]) @ rest) \<and> fst s = work\<lparr>Conditions := Conditions (fst s)\<rparr>"
  have P1: "?P (w1, f, tr @ StatusUpdate w1 # rest)"
    using hw1 ct by (simp add: w1_def)
  have D: "DefaultRetry = Suc 4" by (simp add: DefaultRetry_def)
  have "?P (snd (updateAppliedCondition_fn env c (work, None, tr)))"
    using P1 first by simp
  then have "?P (snd (RetryOnConflict DefaultRetry (updateAppliedCondition_fn env c) None (work, None, tr)))"
    unfolding D by (rule RetryOnConflict_first) (rule fn_invariant[OF ct(1)])
  moreover have "snd (RetryOnConflict DefaultRetry (updateAppliedCondition_fn env c) None (work, None, tr)) = (work', snd (snd (RetryOnConflict DefaultRetry (updateAppliedCondition_fn env c) None (work, None, tr))))"
    "snd (snd (snd (RetryOnConflict DefaultRetry (updateAppliedCondition_fn env c) None (work, None, tr)))) = tr'"
    using assms unfolding updateAppliedCondition_def c_def[symmetric] Let_def
    by (auto split: prod.splits)
  ultimately show ?thesis using hw1 ct
    by (metis append.assoc append_Cons append_Nil fst_conv)
qed

lemma eventf_CU:
  "filter is_ClientUpdate (eventf env object t r m tr) = filter is_ClientUpdate tr"
  by (simp add: eventf_def split: sum.splits)

lemma tryCreateOrUpdateWorkload_CU:
  "tryCreateOrUpdateWorkload env cn w tr = (r, tr') \<Longrightarrow>
   filter is_ClientUpdate tr' = filter is_ClientUpdate tr"
  by (auto simp: tryCreateOrUpdateWorkload_def Let_def split: sum.splits if_splits)

lemma body_CU:
  assumes "syncToClusters_body env cn work m (errs, n, tr) = (errs', n', tr')"
  shows "filter is_ClientUpdate tr' = filter is_ClientUpdate tr"
proof (cases "UnmarshalJSON env m")
  case (Inl e)
  with assms show ?thesis by (simp add: syncToClusters_body_def)
next
  case (Inr u)
  let ?w = "MergeLabel u (WorkPermanentIDLabel env)
              (GetLabelValue (work_Labels work) (WorkPermanentIDLabel env))"
  obtain r t1 where t: "tryCreateOrUpdateWorkload env cn ?w tr = (r, t1)"
    by (cases "tryCreateOrUpdateWorkload env cn ?w tr")
  from assms Inr t have "filter is_ClientUpdate tr' = filter is_ClientUpdate t1"
    unfolding syncToClusters_body_def Let_def
    by (cases r) (auto simp: eventf_CU)
  with tryCreateOrUpdateWorkload_CU[OF t] show ?thesis by simp
qed

lemma loop_CU:
  "syncToClusters_loop env cn work ms (errs, n, tr) = (errs', n', tr') \<Longrightarrow>
   filter is_ClientUpdate tr' = filter is_ClientUpdate tr"
proof (induction ms arbitrary: errs n tr)
  case Nil
  then show ?case by simp
next
  case (Cons m ms)
  obtain e1 n1 t1 where b: "syncToClusters_body env cn work m (errs, n, tr) = (e1, n1, t1)"
    by (cases "syncToClusters_body env cn work m (errs, n, tr)")
  with Cons.prems have "syncToClusters_loop env cn work ms (e1, n1, t1) = (errs', n', tr')"
    by simp
  from Cons.IH[OF this] body_CU[OF b] show ?case by simp
qed

lemma fn_CU:
  "filter is_ClientUpdate (snd (snd (snd (updateAppliedCondition_fn env c s)))) =
   filter is_ClientUpdate (snd (snd s))"
  by (cases s) (auto simp: updateAppliedCondition_fn_def Let_def split: option.splits sum.splits)

lemma updateAppliedCondition_CU:
  assumes "updateAppliedCondition env work status reason message tr = (err, work', tr')"
  shows "filter is_ClientUpdate tr' = filter is_ClientUpdate tr"
proof -
  define c where "c = \<lparr>cond_Type = WorkApplied, cond_Status = status, cond_Reason = reason,
             cond_Message = message, cond_LastTransitionTime = Now env tr,
             cond_ObservedGeneration = 0\<rparr>"
  let ?P = "\<lambda>s::closure. filter is_ClientUpdate (snd (snd s)) = filter is_ClientUpdate tr"
  obtain e w f t where r:
    "RetryOnConflict DefaultRetry (updateAppliedCondition_fn env c) None (work, None, tr) = (e, w, f, t)"
    by (cases "RetryOnConflict DefaultRetry (updateAppliedCondition_fn env c) None (work, None, tr)")
  have "?P (snd (RetryOnConflict DefaultRetry (updateAppliedCondition_fn env c) None (work, None, tr)))"
    by (rule RetryOnConflict_invariant[where P = ?P]) (simp_all add: fn_CU)
  with r have "filter is_ClientUpdate t = filter is_ClientUpdate tr" by simp
  moreover from assms r have "tr' = t"
    unfolding updateAppliedCondition_def Let_def c_def[symmetric] by simp
  ultimately show ?thesis by simp
qed

lemma syncToClusters_CU:
  assumes "syncToClusters env cn work tr = (err, work', tr')"
  shows "filter is_ClientUpdate tr' = filter is_ClientUpdate tr"
proof -
  obtain errs n tr1 where l: "syncToClusters_loop env cn work (Manifests work) ([], 0, tr) = (errs, n, tr1)"
    by (cases "syncToClusters_loop env cn work (Manifests work) ([], 0, tr)")
  have "\<exists>st r m e. updateAppliedCondition env work st r m tr1 = (e, work', tr')"
    using assms l unfolding syncToClusters_def Let_def
    by (simp split: if_splits prod.splits option.splits) blast+
  then show ?thesis using loop_CU[OF l] updateAppliedCondition_CU by metis
qed

lemma syncWork_CU:
  assumes "syncWork env cn work tr = (res, tr')"
  shows "filter is_ClientUpdate tr' = filter is_ClientUpdate tr"
proof -
  obtain err w t1 where s: "syncToClusters env cn work tr = (err, w, t1)"
    by (cases "syncToClusters env cn work tr")
  from assms s have "filter is_ClientUpdate tr' = filter is_ClientUpdate t1"
    unfolding syncWork_def Let_def by (cases err) auto
  with syncToClusters_CU[OF s] show ?thesis by simp
qed

lemma tryDeleteWorkload_loop_CU:
  "tryDeleteWorkload_loop env cn ms tr = (r, tr') \<Longrightarrow>
   filter is_ClientUpdate tr' = filter is_ClientUpdate tr"
  by (induction ms arbitrary: tr) (auto split: sum.splits option.splits)

lemma tryDeleteWorkload_loop_append:
  "tryDeleteWorkload_loop env cn (ms1 @ ms2) tr =
     (case tryDeleteWorkload_loop env cn ms1 tr of
        (Some e, t) \<Rightarrow> (Some e, t)
      | (None, t) \<Rightarrow> tryDeleteWorkload_loop env cn ms2 t)"
  by (induction ms1 arbitrary: tr) (auto split: sum.splits option.splits)


lemma eventf_Apply:
  "filter is_Apply (eventf env object t r m tr) = filter is_Apply tr"
  by (simp add: eventf_def split: sum.splits)

lemma tryCreateOrUpdateWorkload_Apply:
  "tryCreateOrUpdateWorkload env cn w tr = (r, tr') \<Longrightarrow>
   length (filter is_Apply tr') \<le> Suc (length (filter is_Apply tr)) \<and>
   length (filter is_Apply tr) \<le> length (filter is_Apply tr') \<and>
   (r = None \<longrightarrow> length (filter is_Apply tr') = Suc (length (filter is_Apply tr)))"
  by (auto simp: tryCreateOrUpdateWorkload_def Let_def split: sum.splits if_splits)

lemma body_Apply:
  assumes "syncToClusters_body env cn work m (errs, n, tr) = (errs', n', tr')"
  shows "length (filter is_Apply tr') \<le> Suc (length (filter is_Apply tr)) \<and>
         length (filter is_Apply tr) + n' \<le> length (filter is_Apply tr') + n"
proof (cases "UnmarshalJSON env m")
  case (Inl e)
  with assms show ?thesis by (simp add: syncToClusters_body_def)
next
  case (Inr u)
  let ?w = "MergeLabel u (WorkPermanentIDLabel env)
              (GetLabelValue (work_Labels work) (WorkPermanentIDLabel env))"
  obtain r t1 where t: "tryCreateOrUpdateWorkload env cn ?w tr = (r, t1)"
    by (cases "tryCreateOrUpdateWorkload env cn ?w tr")
  from assms Inr t have "filter is_Apply tr' = filter is_Apply t1 \<and> (r \<noteq> None \<longrightarrow> n' = n) \<and> n' \<le> Suc n"
    unfolding syncToClusters_body_def Let_def
    by (cases r) (auto simp: eventf_Apply)
  with tryCreateOrUpdateWorkload_Apply[OF t] show ?thesis by (cases r) auto
qed

lemma loop_Apply:
  "syncToClusters_loop env cn work ms (errs, n, tr) = (errs', n', tr') \<Longrightarrow>
   length (filter is_Apply tr') \<le> length (filter is_Apply tr) + length ms \<and>
   length (filter is_Apply tr) + n' \<le> length (filter is_Apply tr') + n"
proof (induction ms arbitrary: errs n tr)
  case Nil
  then show ?case by simp
next
  case (Cons m ms)
  obtain e1 n1 t1 where b: "syncToClusters_body env cn work m (errs, n, tr) = (e1, n1, t1)"
    by (cases "syncToClusters_body env cn work m (errs, n, tr)")
  with Cons.prems have "syncToClusters_loop env cn work ms (e1, n1, t1) = (errs', n', tr')"
    by simp
  from Cons.IH[OF this] body_Apply[OF b] show ?case by simp
qed

lemma loop_split:
  assumes "i < length ms"
  shows "syncToClusters_loop env cn work ms s =
         syncToClusters_loop env cn work (drop (Suc i) ms)
           (syncToClusters_body env cn work (ms ! i) (syncToClusters_loop env cn work (take i ms) s))"
proof -
  have "ms = take i ms @ (ms ! i # drop (Suc i) ms)"
    using assms by (simp add: id_take_nth_drop)
  then have "syncToClusters_loop env cn work ms s =
             syncToClusters_loop env cn work (take i ms @ (ms ! i # drop (Suc i) ms)) s"
    by simp
  then show ?thesis unfolding loop_append by simp
qed

lemma body_marks:
  assumes "syncToClusters_body env cn work m (errs, n, tr) = (e1, n1, t1)"
  shows "(\<forall>e. UnmarshalJSON env m = Inl e \<longrightarrow> e \<in> set e1) \<and>
         (\<forall>u e. UnmarshalJSON env m = Inr u \<and>
                 fst (tryCreateOrUpdateWorkload env cn
                        (MergeLabel u (WorkPermanentIDLabel env)
                           (GetLabelValue (work_Labels work) (WorkPermanentIDLabel env))) tr) = Some e
                 \<longrightarrow> e \<in> set e1) \<and>
         (\<forall>u k. UnmarshalJSON env m = Inr u \<and>
                 FederatedKeyFunc env cn
                   (MergeLabel u (WorkPermanentIDLabel env)
                      (GetLabelValue (work_Labels work) (WorkPermanentIDLabel env))) = Inr k
                 \<longrightarrow> GetObjectFromCache k \<in> set (drop (length tr) t1))"
proof (cases "UnmarshalJSON env m")
  case (Inl e)
  with assms show ?thesis by (auto simp: syncToClusters_body_def)
next
  case (Inr u)
  let ?w = "MergeLabel u (WorkPermanentIDLabel env)
              (GetLabelValue (work_Labels work) (WorkPermanentIDLabel env))"
  obtain r t0 where t: "tryCreateOrUpdateWorkload env cn ?w tr = (r, t0)"
    by (cases "tryCreateOrUpdateWorkload env cn ?w tr")
  from assms Inr t have 1: "\<forall>e. r = Some e \<longrightarrow> e \<in> set e1"
    and 2: "\<exists>ev. t1 = t0 @ ev"
    unfolding syncToClusters_body_def Let_def
    by (cases r; auto simp: eventf_def split: sum.splits)+
  have 3: "\<forall>k. FederatedKeyFunc env cn ?w = Inr k \<longrightarrow> (\<exists>rest. t0 = tr @ GetObjectFromCache k # rest)"
    using t by (auto simp: tryCreateOrUpdateWorkload_def Let_def split: sum.splits if_splits)
  from 2 3 have "\<forall>k. FederatedKeyFunc env cn ?w = Inr k \<longrightarrow> GetObjectFromCache k \<in> set (drop (length tr) t1)"
    by auto
  with 1 Inr t show ?thesis by auto
qed

lemma tryDeleteWorkload_loop_None:
  "tryDeleteWorkload_loop env cn ms tr = (None, tr1) \<Longrightarrow>
   length (filter is_Delete tr1) = length (filter is_Delete tr) + length ms"
proof (induction ms arbitrary: tr)
  case Nil
  then show ?case by simp
next
  case (Cons m ms)
  then show ?case by (fastforce split: sum.splits option.splits)
qed

lemma syncToClusters_result:
  assumes "syncToClusters_loop env cn work (Manifests work) ([], 0, tr) = (errs, n, tr1)"
    and "syncToClusters env cn work tr = (res, work', tr')"
  shows "(\<exists>rest. tr' = tr1 @ rest) \<and>
         (errs \<noteq> [] \<longrightarrow> (\<exists>extra. res = Some (Aggregate (errs @ extra))))"
proof (cases "errs = []")
  case True
  with assms have u: "updateAppliedCondition env work ConditionTrue ''AppliedSuccessful''
      ''Manifest has been successfully applied'' tr1 = (res, work', tr')"
    by (simp add: syncToClusters_def)
  from updateAppliedCondition_sets[OF u] True show ?thesis by blast
next
  case False
  let ?msg = "''Failed to apply all manifests ('' @ show_nat n @ ''/'' @
          show_nat (length (Manifests work)) @ ''): '' @ Error env (Aggregate errs)"
  obtain e w t where u: "updateAppliedCondition env work ConditionFalse ''AppliedFailed'' ?msg tr1 = (e, w, t)"
    by (cases "updateAppliedCondition env work ConditionFalse ''AppliedFailed'' ?msg tr1")
  from assms False u have r: "tr' = t"
    "res = (case e of Some err \<Rightarrow> NewAggregate (errs @ [err]) | None \<Rightarrow> NewAggregate errs)"
    by (auto simp: syncToClusters_def Let_def split: option.splits)
  from r(2) False have "\<exists>extra. res = Some (Aggregate (errs @ extra))"
    by (cases e) (auto simp: NewAggregate_def)
  with updateAppliedCondition_sets[OF u] r(1) show ?thesis by blast
qed

section \<open>The claims\<close>




text \<open>
  Claim C2. \<^verbatim>\<open>syncToClusters\<close> runs every manifest through the loop body, whatever
  happened to the manifests before it. For every position \<open>i\<close>, with the state left by
  the first \<open>i\<close> manifests (each counted as a success or recorded as an error): a
  manifest \<open>i\<close> that fails to deserialize, or whose create-or-update fails, has its error
  in the aggregate that \<^verbatim>\<open>syncToClusters\<close> returns; a manifest \<open>i\<close> that deserializes and
  has a cache key has its cache lookup in the trace of \<^verbatim>\<open>syncToClusters\<close>, after the
  effects of the manifests before it. The trace of \<^verbatim>\<open>syncToClusters\<close> starts with that of
  the body on manifest \<open>i\<close> followed by the remaining manifests, whose successes and
  errors add up to the number of manifests.
\<close>

theorem syncToClusters_attempts_every_manifest:
  assumes "i < length (Manifests work)"
    and "syncToClusters_loop env clusterName work (take i (Manifests work)) ([], 0, tr) =
           (errs_i, n_i, tr_i)"
    and "syncToClusters env clusterName work tr = (res, work', tr')"
  shows
   "n_i + length errs_i = i \<and>
    (\<forall>e. UnmarshalJSON env (Manifests work ! i) = Inl e \<longrightarrow>
       (\<exists>errs. res = Some (Aggregate errs) \<and> e \<in> set errs)) \<and>
    (\<forall>u e. UnmarshalJSON env (Manifests work ! i) = Inr u \<and>
            fst (tryCreateOrUpdateWorkload env clusterName
                   (MergeLabel u (WorkPermanentIDLabel env)
                      (GetLabelValue (work_Labels work) (WorkPermanentIDLabel env))) tr_i) = Some e
            \<longrightarrow> (\<exists>errs. res = Some (Aggregate errs) \<and> e \<in> set errs)) \<and>
    (\<forall>u k. UnmarshalJSON env (Manifests work ! i) = Inr u \<and>
            FederatedKeyFunc env clusterName
              (MergeLabel u (WorkPermanentIDLabel env)
                 (GetLabelValue (work_Labels work) (WorkPermanentIDLabel env))) = Inr k
            \<longrightarrow> GetObjectFromCache k \<in> set (drop (length tr_i) tr')) \<and>
    (\<exists>errs n tr1 rest.
       syncToClusters_loop env clusterName work (drop (Suc i) (Manifests work))
         (syncToClusters_body env clusterName work (Manifests work ! i) (errs_i, n_i, tr_i)) =
         (errs, n, tr1) \<and>
       tr' = tr1 @ rest \<and>
       n + length errs = length (Manifests work) \<and>
       (errs \<noteq> [] \<longrightarrow> (\<exists>extra. res = Some (Aggregate (errs @ extra)))))"
proof -
  let ?ms = "Manifests work"
  obtain errs n tr1 where l:
    "syncToClusters_loop env clusterName work ?ms ([], 0, tr) = (errs, n, tr1)"
    by (cases "syncToClusters_loop env clusterName work ?ms ([], 0, tr)")
  from syncToClusters_result[OF l assms(3)] obtain rest where
    tr': "tr' = tr1 @ rest" and
    agg: "errs \<noteq> [] \<longrightarrow> (\<exists>extra. res = Some (Aggregate (errs @ extra)))"
    by blast
  obtain e1 n1 t1 where b:
    "syncToClusters_body env clusterName work (?ms ! i) (errs_i, n_i, tr_i) = (e1, n1, t1)"
    by (cases "syncToClusters_body env clusterName work (?ms ! i) (errs_i, n_i, tr_i)")
  have split: "syncToClusters_loop env clusterName work ?ms ([], 0, tr) =
      syncToClusters_loop env clusterName work (drop (Suc i) ?ms)
        (syncToClusters_body env clusterName work (?ms ! i) (errs_i, n_i, tr_i))"
    using loop_split[OF assms(1), of env clusterName work "([], 0, tr)"] assms(2) by simp
  with l b have rest:
    "syncToClusters_loop env clusterName work (drop (Suc i) ?ms) (e1, n1, t1) = (errs, n, tr1)"
    by simp
  from loop_count[OF rest] obtain new t where ext: "errs = e1 @ new" "tr1 = t1 @ t" by blast
  from body_shape[of env clusterName work "?ms ! i" errs_i n_i tr_i] b
  obtain ev where t1: "t1 = tr_i @ ev" by auto
  have d: "set (drop (length tr_i) t1) \<subseteq> set (drop (length tr_i) tr')"
    unfolding tr' ext(2) t1 by auto
  from loop_count[OF assms(2)] assms(1) have ci: "n_i + length errs_i = i" by simp
  from loop_count[OF l] have c: "n + length errs = length ?ms" by simp
  have rec: "\<exists>es. res = Some (Aggregate es) \<and> e \<in> set es" if "e \<in> set e1" for e
  proof -
    from that ext(1) have "e \<in> set errs" by simp
    then have "errs \<noteq> []" by auto
    with agg obtain extra where "res = Some (Aggregate (errs @ extra))" by blast
    with \<open>e \<in> set errs\<close> show ?thesis by auto
  qed
  note bm = body_marks[OF b]
  have m1: "\<forall>e. UnmarshalJSON env (?ms ! i) = Inl e \<longrightarrow>
       (\<exists>errs. res = Some (Aggregate errs) \<and> e \<in> set errs)"
    using bm rec by blast
  have m2: "\<forall>u e. UnmarshalJSON env (?ms ! i) = Inr u \<and>
            fst (tryCreateOrUpdateWorkload env clusterName
                   (MergeLabel u (WorkPermanentIDLabel env)
                      (GetLabelValue (work_Labels work) (WorkPermanentIDLabel env))) tr_i) = Some e
            \<longrightarrow> (\<exists>errs. res = Some (Aggregate errs) \<and> e \<in> set errs)"
    using bm rec by blast
  have m3: "\<forall>u k. UnmarshalJSON env (?ms ! i) = Inr u \<and>
            FederatedKeyFunc env clusterName
              (MergeLabel u (WorkPermanentIDLabel env)
                 (GetLabelValue (work_Labels work) (WorkPermanentIDLabel env))) = Inr k
            \<longrightarrow> GetObjectFromCache k \<in> set (drop (length tr_i) tr')"
    using bm d by blast
  have m4: "\<exists>errs n tr1 rest.
       syncToClusters_loop env clusterName work (drop (Suc i) ?ms)
         (syncToClusters_body env clusterName work (?ms ! i) (errs_i, n_i, tr_i)) =
         (errs, n, tr1) \<and>
       tr' = tr1 @ rest \<and>
       n + length errs = length ?ms \<and>
       (errs \<noteq> [] \<longrightarrow> (\<exists>extra. res = Some (Aggregate (errs @ extra))))"
    using rest b tr' c agg by auto
  from ci m1 m2 m3 m4 show ?thesis by blast
qed

theorem syncToClusters_attempts_every_manifest_witness:
  "fst (syncToClusters (ex_env ex_work ex_cluster) ''member1''
          (ex_work\<lparr>Manifests := [''not json'', ''deployment'']\<rparr>) []) =
     Some (Aggregate [Errorf ''invalid character'']) \<and>
   GetObjectFromCache \<lparr>key_Cluster = ''member1'', key_GroupVersionKind = ''Deployment'',
                        key_Namespace = ''default'', key_Name = ''nginx''\<rparr> \<in>
     set (snd (snd (syncToClusters (ex_env ex_work ex_cluster) ''member1''
                 (ex_work\<lparr>Manifests := [''not json'', ''deployment'']\<rparr>) [])))"
proof -
  let ?E = "ex_env ex_work ex_cluster"
  let ?w = "ex_work\<lparr>Manifests := [''not json'', ''deployment'']\<rparr>"
  let ?s = "syncToClusters ?E ''member1'' ?w []"
  let ?k = "\<lparr>key_Cluster = ''member1'', key_GroupVersionKind = ''Deployment'',
             key_Namespace = ''default'', key_Name = ''nginx''\<rparr>"
  have i0: "0 < length (Manifests ?w)" and i1: "1 < length (Manifests ?w)" by simp_all
  have p0: "syncToClusters_loop ?E ''member1'' ?w (take 0 (Manifests ?w)) ([], 0, []) = ([], 0, [])"
    by simp
  have p1: "syncToClusters_loop ?E ''member1'' ?w (take 1 (Manifests ?w)) ([], 0, []) =
              ([Errorf ''invalid character''], 0, [])"
    by (simp add: ex_env_def syncToClusters_body_def)
  have s: "?s = (fst ?s, fst (snd ?s), snd (snd ?s))" by simp
  have u0: "UnmarshalJSON ?E (Manifests ?w ! 0) = Inl (Errorf ''invalid character'')"
    by (simp add: ex_env_def)
  have u1: "UnmarshalJSON ?E (Manifests ?w ! 1) = Inr ex_deployment"
    by (simp add: ex_env_def)
  have k1: "FederatedKeyFunc ?E ''member1''
              (MergeLabel ex_deployment (WorkPermanentIDLabel ?E)
                 (GetLabelValue (work_Labels ?w) (WorkPermanentIDLabel ?E))) = Inr ?k"
    by (simp add: ex_env_def ex_deployment_def MergeLabel_def)
  note c0 = syncToClusters_attempts_every_manifest[OF i0 p0 s]
  note c1 = syncToClusters_attempts_every_manifest[OF i1 p1 s]
  from c0 u0 obtain errs where a: "fst ?s = Some (Aggregate errs)"
    "Errorf ''invalid character'' \<in> set errs" by blast
  have r: "fst ?s = Some (Aggregate [Errorf ''invalid character''])"
    by (simp add: ex_defs run_defs)
  have b: "GetObjectFromCache ?k \<in> set (drop (length ([]::effect list)) (snd (snd ?s)))"
    using c1 u1 k1 by blast
  from a r b show ?thesis by simp
qed

text \<open>
  Claim C3. \<^verbatim>\<open>Reconcile\<close> writes the Work (the removal of the finalizer is its only
  write of a Work) only in the deletion branch, and there only when the cluster is ready
  and the teardown returned no error, or when the cluster is not ready and is itself
  terminating. In the deletion branch with a cluster that is neither ready nor
  terminating, it returns the error \<open>cluster(name) not ready\<close> with the two loads as
  its only effects: no \<^verbatim>\<open>Delete\<close>, no write of the Work. With a ready cluster and a
  teardown that returns an error, it returns that error at once, and no write of the
  Work has been issued.
\<close>

theorem Reconcile_finalizer_gate:
  "(Reconcile env req tr = (res, tr') \<and>
    filter is_ClientUpdate tr' \<noteq> filter is_ClientUpdate tr \<longrightarrow>
      (\<exists>work clusterName cluster.
         on_ClientGet env tr req = Inr work \<and>
         GetClusterName env (work_Namespace work) = Inr clusterName \<and>
         on_GetCluster env (tr @ [ClientGet req]) clusterName = Inr cluster \<and>
         \<not> IsZero (work_DeletionTimestamp work) \<and>
         (if IsClusterReady cluster
          then fst (tryDeleteWorkload env clusterName work
                      (tr @ [ClientGet req, GetCluster clusterName])) = None
          else \<not> IsZero (cluster_DeletionTimestamp cluster)))) \<and>
   (on_ClientGet env tr req = Inr work \<and>
    GetClusterName env (work_Namespace work) = Inr clusterName \<and>
    on_GetCluster env (tr @ [ClientGet req]) clusterName = Inr cluster \<and>
    \<not> IsZero (work_DeletionTimestamp work) \<longrightarrow>
      (\<not> IsClusterReady cluster \<and> IsZero (cluster_DeletionTimestamp cluster) \<longrightarrow>
         Reconcile env req tr =
           ((Result_empty, Some (Errorf (''cluster('' @ cluster_Name cluster @ '') not ready''))),
            tr @ [ClientGet req, GetCluster clusterName])) \<and>
      (\<forall>e tr3. IsClusterReady cluster \<and>
         tryDeleteWorkload env clusterName work (tr @ [ClientGet req, GetCluster clusterName]) =
           (Some e, tr3) \<longrightarrow>
         Reconcile env req tr = ((Result_empty, Some e), tr3) \<and>
         filter is_ClientUpdate tr3 = filter is_ClientUpdate tr))"
proof -
  have part2: "Reconcile env req tr =
           ((Result_empty, Some (Errorf (''cluster('' @ cluster_Name cluster @ '') not ready''))),
            tr @ [ClientGet req, GetCluster clusterName])"
    if "on_ClientGet env tr req = Inr work"
      "GetClusterName env (work_Namespace work) = Inr clusterName"
      "on_GetCluster env (tr @ [ClientGet req]) clusterName = Inr cluster"
      "\<not> IsZero (work_DeletionTimestamp work)"
      "\<not> IsClusterReady cluster" "IsZero (cluster_DeletionTimestamp cluster)"
    for work clusterName cluster
    using that by (simp add: Reconcile_def Let_def)
  have part3: "Reconcile env req tr = ((Result_empty, Some e), tr3) \<and>
         filter is_ClientUpdate tr3 = filter is_ClientUpdate tr"
    if "on_ClientGet env tr req = Inr work"
      "GetClusterName env (work_Namespace work) = Inr clusterName"
      "on_GetCluster env (tr @ [ClientGet req]) clusterName = Inr cluster"
      "\<not> IsZero (work_DeletionTimestamp work)"
      "IsClusterReady cluster"
      "tryDeleteWorkload env clusterName work (tr @ [ClientGet req, GetCluster clusterName]) =
           (Some e, tr3)"
    for work clusterName cluster e tr3
  proof -
    from that(6) have "filter is_ClientUpdate tr3 =
        filter is_ClientUpdate (tr @ [ClientGet req, GetCluster clusterName])"
      unfolding tryDeleteWorkload_def by (rule tryDeleteWorkload_loop_CU)
    with that show ?thesis by (simp add: Reconcile_def Let_def)
  qed
  have part1: "\<exists>work clusterName cluster.
         on_ClientGet env tr req = Inr work \<and>
         GetClusterName env (work_Namespace work) = Inr clusterName \<and>
         on_GetCluster env (tr @ [ClientGet req]) clusterName = Inr cluster \<and>
         \<not> IsZero (work_DeletionTimestamp work) \<and>
         (if IsClusterReady cluster
          then fst (tryDeleteWorkload env clusterName work
                      (tr @ [ClientGet req, GetCluster clusterName])) = None
          else \<not> IsZero (cluster_DeletionTimestamp cluster))"
    if r: "Reconcile env req tr = (res, tr')"
      and w: "filter is_ClientUpdate tr' \<noteq> filter is_ClientUpdate tr"
  proof (cases "on_ClientGet env tr req")
    case (Inl err)
    with r w show ?thesis by (auto simp: Reconcile_def Let_def split: if_splits)
  next
    case (Inr work)
    note g = this
    show ?thesis
    proof (cases "GetClusterName env (work_Namespace work)")
      case (Inl err)
      with r w g show ?thesis by (auto simp: Reconcile_def Let_def)
    next
      case (Inr clusterName)
      note n = this
      show ?thesis
      proof (cases "on_GetCluster env (tr @ [ClientGet req]) clusterName")
        case (Inl err)
        with r w g n show ?thesis by (auto simp: Reconcile_def Let_def)
      next
        case (Inr cluster)
        note c = this
        let ?t2 = "tr @ [ClientGet req, GetCluster clusterName]"
        have del: "\<not> IsZero (work_DeletionTimestamp work)"
        proof
          assume z: "IsZero (work_DeletionTimestamp work)"
          show False
          proof (cases "IsClusterReady cluster")
            case True
            with r g n c z have "syncWork env clusterName work ?t2 = (res, tr')"
              by (simp add: Reconcile_def Let_def)
            from syncWork_CU[OF this] w show False by simp
          next
            case False
            with r g n c z w show False by (auto simp: Reconcile_def Let_def)
          qed
        qed
        have gate: "if IsClusterReady cluster
          then fst (tryDeleteWorkload env clusterName work ?t2) = None
          else \<not> IsZero (cluster_DeletionTimestamp cluster)"
        proof (cases "IsClusterReady cluster")
          case True
          obtain e t3 where t: "tryDeleteWorkload env clusterName work ?t2 = (e, t3)"
            by (cases "tryDeleteWorkload env clusterName work ?t2")
          have "e = None"
          proof (cases e)
            case None
            then show ?thesis .
          next
            case (Some err)
            from part3[OF g n c del True t[unfolded Some]] r w show ?thesis by simp
          qed
          with t True show ?thesis by simp
        next
          case False
          have "\<not> IsZero (cluster_DeletionTimestamp cluster)"
          proof
            assume "IsZero (cluster_DeletionTimestamp cluster)"
            from part2[OF g n c del False this] r w show False by simp
          qed
          with False show ?thesis by simp
        qed
        from g n c del gate show ?thesis by blast
      qed
    qed
  qed
  from part1 part2 part3 show ?thesis by blast
qed


theorem Reconcile_finalizer_gate_witness:
  "filter is_ClientUpdate
     (snd (Reconcile (ex_env (ex_work\<lparr>work_DeletionTimestamp := Some 100, Manifests := [''deployment'']\<rparr>)
                        ex_cluster) ex_req [])) \<noteq> [] \<and>
   fst (tryDeleteWorkload (ex_env (ex_work\<lparr>work_DeletionTimestamp := Some 100, Manifests := [''deployment'']\<rparr>)
                             ex_cluster) ''member1''
          (ex_work\<lparr>work_DeletionTimestamp := Some 100, Manifests := [''deployment'']\<rparr>)
          [ClientGet ex_req, GetCluster ''member1'']) = None \<and>
   Reconcile (ex_env (ex_work\<lparr>work_DeletionTimestamp := Some 100\<rparr>)
                (ex_cluster\<lparr>cluster_Ready := False\<rparr>)) ex_req [] =
     ((Result_empty, Some (Errorf ''cluster(member1) not ready'')),
      [ClientGet ex_req, GetCluster ''member1'']) \<and>
   Reconcile ((ex_env (ex_work\<lparr>work_DeletionTimestamp := Some 100\<rparr>) ex_cluster)
                \<lparr>on_Delete := \<lambda>tr c object. Some (Errorf ''forbidden'')\<rparr>) ex_req [] =
     ((Result_empty, Some (Errorf ''forbidden'')),
      [ClientGet ex_req, GetCluster ''member1'', Delete ''member1'' ex_deployment])"
proof -
  let ?w1 = "ex_work\<lparr>work_DeletionTimestamp := Some 100, Manifests := [''deployment'']\<rparr>"
  let ?E1 = "ex_env ?w1 ex_cluster"
  let ?w2 = "ex_work\<lparr>work_DeletionTimestamp := Some 100\<rparr>"
  let ?c2 = "ex_cluster\<lparr>cluster_Ready := False\<rparr>"
  let ?E2 = "ex_env ?w2 ?c2"
  let ?E3 = "(ex_env ?w2 ex_cluster)\<lparr>on_Delete := \<lambda>tr c object. Some (Errorf ''forbidden'')\<rparr>"
  have r1: "Reconcile ?E1 ex_req [] = (fst (Reconcile ?E1 ex_req []), snd (Reconcile ?E1 ex_req []))"
    by simp
  have cu: "filter is_ClientUpdate (snd (Reconcile ?E1 ex_req [])) \<noteq> filter is_ClientUpdate []"
    by (simp add: ex_defs run_defs)
  from Reconcile_finalizer_gate[of ?E1 ex_req "[]" "fst (Reconcile ?E1 ex_req [])"
         "snd (Reconcile ?E1 ex_req [])"] r1 cu
  obtain work clusterName cluster where g:
    "on_ClientGet ?E1 [] ex_req = Inr work"
    "GetClusterName ?E1 (work_Namespace work) = Inr clusterName"
    "on_GetCluster ?E1 ([] @ [ClientGet ex_req]) clusterName = Inr cluster"
    "if IsClusterReady cluster
     then fst (tryDeleteWorkload ?E1 clusterName work ([] @ [ClientGet ex_req, GetCluster clusterName])) = None
     else \<not> IsZero (cluster_DeletionTimestamp cluster)"
    by blast
  from g(1) have w: "work = ?w1" by (simp add: ex_env_def)
  from g(2) have n: "clusterName = ''member1''" by (simp add: w ex_env_def ex_work_def)
  from g(3) have c: "cluster = ex_cluster" by (simp add: ex_env_def)
  from g(4) have a: "fst (tryDeleteWorkload ?E1 ''member1'' ?w1 [ClientGet ex_req, GetCluster ''member1'']) = None"
    unfolding w n c by (simp add: IsClusterReady_def ex_cluster_def)
  have l2: "on_ClientGet ?E2 [] ex_req = Inr ?w2 \<and>
    GetClusterName ?E2 (work_Namespace ?w2) = Inr ''member1'' \<and>
    on_GetCluster ?E2 ([] @ [ClientGet ex_req]) ''member1'' = Inr ?c2 \<and>
    \<not> IsZero (work_DeletionTimestamp ?w2)"
    by (simp add: ex_env_def ex_work_def IsZero_def)
  have nr: "\<not> IsClusterReady ?c2 \<and> IsZero (cluster_DeletionTimestamp ?c2)"
    by (simp add: IsClusterReady_def IsZero_def ex_cluster_def)
  from Reconcile_finalizer_gate[of ?E2 ex_req "[]" _ _ ?w2 "''member1''" ?c2] l2 nr
  have b: "Reconcile ?E2 ex_req [] =
     ((Result_empty, Some (Errorf (''cluster('' @ cluster_Name ?c2 @ '') not ready''))),
      [] @ [ClientGet ex_req, GetCluster ''member1''])"
    by blast
  have l3: "on_ClientGet ?E3 [] ex_req = Inr ?w2 \<and>
    GetClusterName ?E3 (work_Namespace ?w2) = Inr ''member1'' \<and>
    on_GetCluster ?E3 ([] @ [ClientGet ex_req]) ''member1'' = Inr ex_cluster \<and>
    \<not> IsZero (work_DeletionTimestamp ?w2)"
    by (simp add: ex_env_def ex_work_def IsZero_def)
  have t3: "IsClusterReady ex_cluster \<and>
    tryDeleteWorkload ?E3 ''member1'' ?w2 ([] @ [ClientGet ex_req, GetCluster ''member1'']) =
      (Some (Errorf ''forbidden''),
       [ClientGet ex_req, GetCluster ''member1'', Delete ''member1'' ex_deployment])"
    by (simp add: IsClusterReady_def ex_cluster_def tryDeleteWorkload_def ex_env_def ex_work_def)
  from Reconcile_finalizer_gate[of ?E3 ex_req "[]" _ _ ?w2 "''member1''" ex_cluster] l3 t3
  have d: "Reconcile ?E3 ex_req [] =
     ((Result_empty, Some (Errorf ''forbidden'')),
      [ClientGet ex_req, GetCluster ''member1'', Delete ''member1'' ex_deployment])"
    by blast
  from b have b': "Reconcile ?E2 ex_req [] =
     ((Result_empty, Some (Errorf ''cluster(member1) not ready'')),
      [ClientGet ex_req, GetCluster ''member1''])"
    by (simp add: ex_cluster_def)
  from cu a b' d show ?thesis by simp
qed

text \<open>
  Claim C4. Without a deletion marker on the Work and with a cluster that is not
  ready, \<^verbatim>\<open>Reconcile\<close> returns the error \<open>cluster(name) not ready\<close>, and its only effects
  are the two loads: no cache lookup, no Create and no Update are issued.
\<close>

theorem Reconcile_not_ready_no_sync:
  "on_ClientGet env tr req = Inr work \<Longrightarrow>
   GetClusterName env (work_Namespace work) = Inr clusterName \<Longrightarrow>
   on_GetCluster env (tr @ [ClientGet req]) clusterName = Inr cluster \<Longrightarrow>
   IsZero (work_DeletionTimestamp work) \<Longrightarrow>
   \<not> IsClusterReady cluster \<Longrightarrow>
   Reconcile env req tr =
     ((Result_empty, Some (Errorf (''cluster('' @ cluster_Name cluster @ '') not ready''))),
      tr @ [ClientGet req, GetCluster clusterName])"
  by (simp add: Reconcile_def)

theorem Reconcile_not_ready_no_sync_witness:
  "Reconcile (ex_env ex_work (ex_cluster\<lparr>cluster_Ready := False\<rparr>)) ex_req [] =
     ((Result_empty, Some (Errorf ''cluster(member1) not ready'')),
      [ClientGet ex_req, GetCluster ''member1''])"
  using Reconcile_not_ready_no_sync[of "ex_env ex_work (ex_cluster\<lparr>cluster_Ready := False\<rparr>)" "[]" ex_req
          ex_work "''member1''" "ex_cluster\<lparr>cluster_Ready := False\<rparr>"]
  by (simp add: ex_defs IsZero_def IsClusterReady_def)

text \<open>
  Claim C5. With a deletion marker on the Work and a cluster that is not ready but
  carries a deletion marker itself, \<^verbatim>\<open>Reconcile\<close> goes from the two loads straight to
  \<^verbatim>\<open>removeFinalizer\<close>, whose result it returns; no \<^verbatim>\<open>Delete\<close> is issued.
\<close>

theorem Reconcile_terminating_cluster_bypass:
  "on_ClientGet env tr req = Inr work \<Longrightarrow>
   GetClusterName env (work_Namespace work) = Inr clusterName \<Longrightarrow>
   on_GetCluster env (tr @ [ClientGet req]) clusterName = Inr cluster \<Longrightarrow>
   \<not> IsZero (work_DeletionTimestamp work) \<Longrightarrow>
   \<not> IsClusterReady cluster \<Longrightarrow>
   \<not> IsZero (cluster_DeletionTimestamp cluster) \<Longrightarrow>
   Reconcile env req tr =
     (fst (removeFinalizer env work (tr @ [ClientGet req, GetCluster clusterName])),
      snd (snd (removeFinalizer env work (tr @ [ClientGet req, GetCluster clusterName])))) \<and>
   filter is_Delete (snd (Reconcile env req tr)) = filter is_Delete tr"
  by (auto simp: Reconcile_def removeFinalizer_def Let_def split: prod.splits option.splits)

theorem Reconcile_terminating_cluster_bypass_witness:
  "Reconcile (ex_env (ex_work\<lparr>work_DeletionTimestamp := Some 100\<rparr>)
               (ex_cluster\<lparr>cluster_Ready := False, cluster_DeletionTimestamp := Some 50\<rparr>)) ex_req [] =
     ((Result_empty, None),
      [ClientGet ex_req, GetCluster ''member1'',
       ClientUpdate (ex_work\<lparr>work_DeletionTimestamp := Some 100, work_Finalizers := []\<rparr>)]) \<and>
   filter is_Delete (snd (Reconcile (ex_env (ex_work\<lparr>work_DeletionTimestamp := Some 100\<rparr>)
               (ex_cluster\<lparr>cluster_Ready := False, cluster_DeletionTimestamp := Some 50\<rparr>)) ex_req [])) = []"
  using Reconcile_terminating_cluster_bypass[of
          "ex_env (ex_work\<lparr>work_DeletionTimestamp := Some 100\<rparr>)
               (ex_cluster\<lparr>cluster_Ready := False, cluster_DeletionTimestamp := Some 50\<rparr>)"
          "[]" ex_req "ex_work\<lparr>work_DeletionTimestamp := Some 100\<rparr>" "''member1''"
          "ex_cluster\<lparr>cluster_Ready := False, cluster_DeletionTimestamp := Some 50\<rparr>"]
  by (simp add: ex_defs IsZero_def IsClusterReady_def removeFinalizer_def ContainsFinalizer_def
      RemoveFinalizer_def Let_def)

text \<open>
  Claim C6. For a manifest of the apply path that deserializes and has a cache key:
  when the cache lookup fails with NotFound, the object is created through the
  watcher's \<^verbatim>\<open>Create\<close>; when it fails with another error, that error is returned after
  the lookup alone (no \<^verbatim>\<open>Create\<close>, no \<^verbatim>\<open>Update\<close>) and the loop body appends it to
  the errors without counting a success; when it succeeds, the object is updated through
  \<^verbatim>\<open>Update\<close> with the cached object as its third argument.
\<close>

theorem tryCreateOrUpdateWorkload_cases:
  assumes "UnmarshalJSON env manifest = Inr unmarshalled"
    and "workload = MergeLabel unmarshalled (WorkPermanentIDLabel env)
                      (GetLabelValue (work_Labels work) (WorkPermanentIDLabel env))"
    and "FederatedKeyFunc env clusterName workload = Inr fedKey"
  shows
   "(\<forall>err. on_GetObjectFromCache env tr fedKey = Inl err \<and> IsNotFound err \<longrightarrow>
      tryCreateOrUpdateWorkload env clusterName workload tr =
        (on_Create env (tr @ [GetObjectFromCache fedKey]) clusterName workload,
         tr @ [GetObjectFromCache fedKey, Create clusterName workload])) \<and>
    (\<forall>err. on_GetObjectFromCache env tr fedKey = Inl err \<and> \<not> IsNotFound err \<longrightarrow>
      tryCreateOrUpdateWorkload env clusterName workload tr =
        (Some err, tr @ [GetObjectFromCache fedKey]) \<and>
      syncToClusters_body env clusterName work manifest (errs, n, tr) =
        (errs @ [err], n,
         eventf env workload EventTypeWarning EventReasonSyncWorkloadFailed
           (''Failed to create or update resource('' @ KObj workload @
            '') in member cluster('' @ clusterName @ ''): '' @ Error env err)
           (tr @ [GetObjectFromCache fedKey]))) \<and>
    (\<forall>clusterObj. on_GetObjectFromCache env tr fedKey = Inr clusterObj \<longrightarrow>
      tryCreateOrUpdateWorkload env clusterName workload tr =
        (on_Update env (tr @ [GetObjectFromCache fedKey]) clusterName workload clusterObj,
         tr @ [GetObjectFromCache fedKey, Update clusterName workload clusterObj]))"
proof -
  have t: "tryCreateOrUpdateWorkload env clusterName workload tr =
     (case on_GetObjectFromCache env tr fedKey of
        Inl err \<Rightarrow>
          if \<not> IsNotFound err then (Some err, tr @ [GetObjectFromCache fedKey])
          else (on_Create env (tr @ [GetObjectFromCache fedKey]) clusterName workload,
                tr @ [GetObjectFromCache fedKey, Create clusterName workload])
      | Inr clusterObj \<Rightarrow>
          (on_Update env (tr @ [GetObjectFromCache fedKey]) clusterName workload clusterObj,
           tr @ [GetObjectFromCache fedKey, Update clusterName workload clusterObj]))"
    using assms(3) by (simp add: tryCreateOrUpdateWorkload_def Let_def split: sum.splits)
  have b: "syncToClusters_body env clusterName work manifest (errs, n, tr) =
     (case tryCreateOrUpdateWorkload env clusterName workload tr of
        (Some err, tr1) \<Rightarrow>
          (errs @ [err], n,
           eventf env workload EventTypeWarning EventReasonSyncWorkloadFailed
             (''Failed to create or update resource('' @ KObj workload @
              '') in member cluster('' @ clusterName @ ''): '' @ Error env err) tr1)
      | (None, tr1) \<Rightarrow>
          (errs, n + 1,
           eventf env workload EventTypeNormal EventReasonSyncWorkloadSucceed
             (''Successfully applied resource('' @ obj_Namespace workload @ ''/'' @
              obj_Name workload @ '') to cluster '' @ clusterName) tr1))"
    unfolding syncToClusters_body_def assms(2) Let_def using assms(1) by simp
  show ?thesis unfolding b unfolding t by (simp split: sum.splits)
qed

theorem tryCreateOrUpdateWorkload_cases_witness:
  "tryCreateOrUpdateWorkload (ex_env ex_work ex_cluster) ''member1''
       (MergeLabel ex_deployment ''work.karmada.io/permanent-id'' []) [] =
     (None,
      [GetObjectFromCache \<lparr>key_Cluster = ''member1'', key_GroupVersionKind = ''Deployment'',
                            key_Namespace = ''default'', key_Name = ''nginx''\<rparr>,
       Create ''member1'' (MergeLabel ex_deployment ''work.karmada.io/permanent-id'' [])]) \<and>
   tryCreateOrUpdateWorkload
       ((ex_env ex_work ex_cluster)\<lparr>on_GetObjectFromCache := \<lambda>tr k. Inl (Errorf ''informer not synced'')\<rparr>)
       ''member1'' (MergeLabel ex_deployment ''work.karmada.io/permanent-id'' []) [] =
     (Some (Errorf ''informer not synced''),
      [GetObjectFromCache \<lparr>key_Cluster = ''member1'', key_GroupVersionKind = ''Deployment'',
                            key_Namespace = ''default'', key_Name = ''nginx''\<rparr>]) \<and>
   fst (syncToClusters_body
       ((ex_env ex_work ex_cluster)\<lparr>on_GetObjectFromCache := \<lambda>tr k. Inl (Errorf ''informer not synced'')\<rparr>)
       ''member1'' ex_work ''deployment'' ([], 0, [])) = [Errorf ''informer not synced''] \<and>
   tryCreateOrUpdateWorkload
       ((ex_env ex_work ex_cluster)\<lparr>on_GetObjectFromCache := \<lambda>tr k. Inr ex_deployment\<rparr>)
       ''member1'' (MergeLabel ex_deployment ''work.karmada.io/permanent-id'' []) [] =
     (None,
      [GetObjectFromCache \<lparr>key_Cluster = ''member1'', key_GroupVersionKind = ''Deployment'',
                            key_Namespace = ''default'', key_Name = ''nginx''\<rparr>,
       Update ''member1'' (MergeLabel ex_deployment ''work.karmada.io/permanent-id'' []) ex_deployment])"
proof -
  let ?w = "MergeLabel ex_deployment ''work.karmada.io/permanent-id'' []"
  let ?k = "\<lparr>key_Cluster = ''member1'', key_GroupVersionKind = ''Deployment'',
             key_Namespace = ''default'', key_Name = ''nginx''\<rparr>"
  let ?e1 = "ex_env ex_work ex_cluster"
  let ?e2 = "(ex_env ex_work ex_cluster)\<lparr>on_GetObjectFromCache := \<lambda>tr k. Inl (Errorf ''informer not synced'')\<rparr>"
  let ?e3 = "(ex_env ex_work ex_cluster)\<lparr>on_GetObjectFromCache := \<lambda>tr k. Inr ex_deployment\<rparr>"
  have u: "UnmarshalJSON ?e1 ''deployment'' = Inr ex_deployment"
    "UnmarshalJSON ?e2 ''deployment'' = Inr ex_deployment"
    "UnmarshalJSON ?e3 ''deployment'' = Inr ex_deployment"
    by (simp_all add: ex_env_def)
  have w: "?w = MergeLabel ex_deployment (WorkPermanentIDLabel ?e1)
                  (GetLabelValue (work_Labels ex_work) (WorkPermanentIDLabel ?e1))"
    "?w = MergeLabel ex_deployment (WorkPermanentIDLabel ?e2)
                  (GetLabelValue (work_Labels ex_work) (WorkPermanentIDLabel ?e2))"
    "?w = MergeLabel ex_deployment (WorkPermanentIDLabel ?e3)
                  (GetLabelValue (work_Labels ex_work) (WorkPermanentIDLabel ?e3))"
    by (simp_all add: ex_env_def ex_work_def GetLabelValue_def)
  have k: "FederatedKeyFunc ?e1 ''member1'' ?w = Inr ?k"
    "FederatedKeyFunc ?e2 ''member1'' ?w = Inr ?k"
    "FederatedKeyFunc ?e3 ''member1'' ?w = Inr ?k"
    by (simp_all add: ex_env_def ex_deployment_def MergeLabel_def)
  show ?thesis
    using tryCreateOrUpdateWorkload_cases[OF u(1) w(1) k(1), of "[]" "[]" 0]
          tryCreateOrUpdateWorkload_cases[OF u(2) w(2) k(2), of "[]" "[]" 0]
          tryCreateOrUpdateWorkload_cases[OF u(3) w(3) k(3), of "[]" "[]" 0]
    by (simp add: ex_env_def)
qed

text \<open>
  Claim C7, as amended. On a Work without the controller's finalizer,
  \<^verbatim>\<open>removeFinalizer\<close> returns success, leaves the Work as it is and issues no effect.
  The Work written by a successful removal no longer holds the token, so removing again
  is that no-op. When \<^verbatim>\<open>Reconcile\<close> loads such a Work with its deletion marker set, it
  never writes the Work; it returns success when the cluster is ready and the repeated
  teardown returns no error, or when the cluster is not ready and is itself terminating.
\<close>

theorem removeFinalizer_idempotent:
  "(\<not> ContainsFinalizer work (ExecutionControllerFinalizer env) \<longrightarrow>
      removeFinalizer env work tr = ((Result_empty, None), work, tr)) \<and>
   (removeFinalizer env work tr = ((res, None), work', tr') \<longrightarrow>
      \<not> ContainsFinalizer work' (ExecutionControllerFinalizer env) \<and>
      removeFinalizer env work' tr'' = ((Result_empty, None), work', tr'')) \<and>
   (on_ClientGet env tr req = Inr work \<and>
    GetClusterName env (work_Namespace work) = Inr clusterName \<and>
    on_GetCluster env (tr @ [ClientGet req]) clusterName = Inr cluster \<and>
    \<not> IsZero (work_DeletionTimestamp work) \<and>
    \<not> ContainsFinalizer work (ExecutionControllerFinalizer env) \<longrightarrow>
      filter is_ClientUpdate (snd (Reconcile env req tr)) = filter is_ClientUpdate tr \<and>
      (\<forall>tr3. IsClusterReady cluster \<and>
         tryDeleteWorkload env clusterName work (tr @ [ClientGet req, GetCluster clusterName]) =
           (None, tr3) \<longrightarrow>
         Reconcile env req tr = ((Result_empty, None), tr3)) \<and>
      (\<not> IsClusterReady cluster \<and> \<not> IsZero (cluster_DeletionTimestamp cluster) \<longrightarrow>
         Reconcile env req tr = ((Result_empty, None), tr @ [ClientGet req, GetCluster clusterName])))"
proof -
  have a: "\<not> ContainsFinalizer work (ExecutionControllerFinalizer env) \<longrightarrow>
      removeFinalizer env work tr = ((Result_empty, None), work, tr)" for tr
    by (simp add: removeFinalizer_def)
  have b: "removeFinalizer env work tr = ((res, None), work', tr') \<longrightarrow>
      \<not> ContainsFinalizer work' (ExecutionControllerFinalizer env) \<and>
      removeFinalizer env work' tr'' = ((Result_empty, None), work', tr'')"
    by (auto simp: removeFinalizer_def ContainsFinalizer_def RemoveFinalizer_def Let_def
        split: if_splits option.splits)
  have c: "filter is_ClientUpdate (snd (Reconcile env req tr)) = filter is_ClientUpdate tr \<and>
      (\<forall>tr3. IsClusterReady cluster \<and>
         tryDeleteWorkload env clusterName work (tr @ [ClientGet req, GetCluster clusterName]) =
           (None, tr3) \<longrightarrow>
         Reconcile env req tr = ((Result_empty, None), tr3)) \<and>
      (\<not> IsClusterReady cluster \<and> \<not> IsZero (cluster_DeletionTimestamp cluster) \<longrightarrow>
         Reconcile env req tr = ((Result_empty, None), tr @ [ClientGet req, GetCluster clusterName]))"
    if l: "on_ClientGet env tr req = Inr work"
      "GetClusterName env (work_Namespace work) = Inr clusterName"
      "on_GetCluster env (tr @ [ClientGet req]) clusterName = Inr cluster"
      "\<not> IsZero (work_DeletionTimestamp work)"
      and nf: "\<not> ContainsFinalizer work (ExecutionControllerFinalizer env)"
  proof -
    let ?t2 = "tr @ [ClientGet req, GetCluster clusterName]"
    obtain e t3 where t: "tryDeleteWorkload env clusterName work ?t2 = (e, t3)"
      by (cases "tryDeleteWorkload env clusterName work ?t2")
    then have cu: "filter is_ClientUpdate t3 = filter is_ClientUpdate tr"
      unfolding tryDeleteWorkload_def by (auto dest: tryDeleteWorkload_loop_CU)
    from l nf a t cu show ?thesis
      by (cases e) (auto simp: Reconcile_def Let_def)
  qed
  from a b c show ?thesis by blast
qed


theorem removeFinalizer_idempotent_witness:
  "removeFinalizer (ex_env ex_work ex_cluster) (ex_work\<lparr>work_Finalizers := [''other'']\<rparr>) [] =
     ((Result_empty, None), ex_work\<lparr>work_Finalizers := [''other'']\<rparr>, []) \<and>
   removeFinalizer (ex_env ex_work ex_cluster) ex_work [] =
     ((Result_empty, None), ex_work\<lparr>work_Finalizers := []\<rparr>,
      [ClientUpdate (ex_work\<lparr>work_Finalizers := []\<rparr>)]) \<and>
   removeFinalizer (ex_env ex_work ex_cluster) (ex_work\<lparr>work_Finalizers := []\<rparr>)
       [ClientUpdate (ex_work\<lparr>work_Finalizers := []\<rparr>)] =
     ((Result_empty, None), ex_work\<lparr>work_Finalizers := []\<rparr>,
      [ClientUpdate (ex_work\<lparr>work_Finalizers := []\<rparr>)]) \<and>
   Reconcile (ex_env (ex_work\<lparr>work_DeletionTimestamp := Some 100, work_Finalizers := [],
                               Manifests := [''deployment'']\<rparr>) ex_cluster) ex_req [] =
     ((Result_empty, None),
      [ClientGet ex_req, GetCluster ''member1'', Delete ''member1'' ex_deployment])"
proof -
  let ?E = "ex_env ex_work ex_cluster"
  let ?w0 = "ex_work\<lparr>work_Finalizers := [''other'']\<rparr>"
  let ?w1 = "ex_work\<lparr>work_Finalizers := []\<rparr>"
  let ?w2 = "ex_work\<lparr>work_DeletionTimestamp := Some 100, work_Finalizers := [],
                      Manifests := [''deployment'']\<rparr>"
  let ?E2 = "ex_env ?w2 ex_cluster"
  have n0: "\<not> ContainsFinalizer ?w0 (ExecutionControllerFinalizer ?E)"
    by (simp add: ContainsFinalizer_def ex_env_def ex_work_def)
  from removeFinalizer_idempotent[of ?w0 ?E "[]"] n0
  have a: "removeFinalizer ?E ?w0 [] = ((Result_empty, None), ?w0, [])" by blast
  have r1: "removeFinalizer ?E ex_work [] = ((Result_empty, None), ?w1, [ClientUpdate ?w1])"
    by (simp add: removeFinalizer_def ContainsFinalizer_def RemoveFinalizer_def ex_env_def
        ex_work_def Let_def)
  from removeFinalizer_idempotent[of ex_work ?E "[]" Result_empty ?w1 "[ClientUpdate ?w1]"
         "[ClientUpdate ?w1]"] r1
  have b: "removeFinalizer ?E ?w1 [ClientUpdate ?w1] = ((Result_empty, None), ?w1, [ClientUpdate ?w1])"
    by blast
  have l: "on_ClientGet ?E2 [] ex_req = Inr ?w2 \<and>
    GetClusterName ?E2 (work_Namespace ?w2) = Inr ''member1'' \<and>
    on_GetCluster ?E2 ([] @ [ClientGet ex_req]) ''member1'' = Inr ex_cluster \<and>
    \<not> IsZero (work_DeletionTimestamp ?w2) \<and>
    \<not> ContainsFinalizer ?w2 (ExecutionControllerFinalizer ?E2)"
    by (simp add: ex_env_def ex_work_def IsZero_def ContainsFinalizer_def)
  have t: "IsClusterReady ex_cluster \<and>
    tryDeleteWorkload ?E2 ''member1'' ?w2 ([] @ [ClientGet ex_req, GetCluster ''member1'']) =
      (None, [ClientGet ex_req, GetCluster ''member1'', Delete ''member1'' ex_deployment])"
    by (simp add: IsClusterReady_def ex_cluster_def tryDeleteWorkload_def ex_env_def)
  from removeFinalizer_idempotent[of ?w2 ?E2 "[]" _ _ _ _ ex_req "''member1''" ex_cluster] l t
  have c: "Reconcile ?E2 ex_req [] =
     ((Result_empty, None),
      [ClientGet ex_req, GetCluster ''member1'', Delete ''member1'' ex_deployment])"
    by blast
  from a r1 b c show ?thesis by blast
qed

text \<open>
  The claim as first stated also calls the repeated teardown path a no-op success. It
  is neither in general: on a Work without the token and with its deletion marker
  set, \<^verbatim>\<open>Reconcile\<close> issues the \<^verbatim>\<open>Delete\<close> of every manifest again and returns the error
  of a \<^verbatim>\<open>Delete\<close> that fails, and with a cluster that is neither ready nor terminating
  it returns the error \<open>cluster(member1) not ready\<close>.
\<close>

theorem Reconcile_teardown_again_counterexample:
  "\<not> ContainsFinalizer
       (ex_work\<lparr>work_DeletionTimestamp := Some 100, work_Finalizers := [],
                Manifests := [''deployment'']\<rparr>)
       (ExecutionControllerFinalizer
          ((ex_env (ex_work\<lparr>work_DeletionTimestamp := Some 100, work_Finalizers := [],
                             Manifests := [''deployment'']\<rparr>) ex_cluster)
             \<lparr>on_Delete := \<lambda>tr c object. Some (Errorf ''forbidden'')\<rparr>)) \<and>
   on_ClientGet
       ((ex_env (ex_work\<lparr>work_DeletionTimestamp := Some 100, work_Finalizers := [],
                          Manifests := [''deployment'']\<rparr>) ex_cluster)
          \<lparr>on_Delete := \<lambda>tr c object. Some (Errorf ''forbidden'')\<rparr>) [] ex_req =
     Inr (ex_work\<lparr>work_DeletionTimestamp := Some 100, work_Finalizers := [],
                  Manifests := [''deployment'']\<rparr>) \<and>
   Reconcile
       ((ex_env (ex_work\<lparr>work_DeletionTimestamp := Some 100, work_Finalizers := [],
                          Manifests := [''deployment'']\<rparr>) ex_cluster)
          \<lparr>on_Delete := \<lambda>tr c object. Some (Errorf ''forbidden'')\<rparr>) ex_req [] =
     ((Result_empty, Some (Errorf ''forbidden'')),
      [ClientGet ex_req, GetCluster ''member1'', Delete ''member1'' ex_deployment]) \<and>
   Reconcile
       (ex_env (ex_work\<lparr>work_DeletionTimestamp := Some 100, work_Finalizers := [],
                         Manifests := [''deployment'']\<rparr>)
          (ex_cluster\<lparr>cluster_Ready := False\<rparr>)) ex_req [] =
     ((Result_empty, Some (Errorf ''cluster(member1) not ready'')),
      [ClientGet ex_req, GetCluster ''member1''])"
  by (simp add: ex_defs Reconcile_def IsZero_def IsClusterReady_def tryDeleteWorkload_def
      ContainsFinalizer_def Let_def)

text \<open>
  Claim C8. When the load of the Work fails, \<^verbatim>\<open>Reconcile\<close> stops at once: with a
  NotFound error it returns the empty result (no requeue) and no error, with any other
  error it returns that error; in both cases the only effect is the load itself.
\<close>

theorem Reconcile_load_failure:
  "on_ClientGet env tr req = Inl err \<Longrightarrow>
   Reconcile env req tr =
     ((\<lparr>Requeue = False, RequeueAfter = 0\<rparr>, if IsNotFound err then None else Some err),
      tr @ [ClientGet req])"
  by (simp add: Reconcile_def Result_empty_def)

theorem Reconcile_load_failure_witness:
  "Reconcile (ex_env ex_work ex_cluster) (''karmada-es-member1'', ''gone'') [] =
     ((\<lparr>Requeue = False, RequeueAfter = 0\<rparr>, None), [ClientGet (''karmada-es-member1'', ''gone'')]) \<and>
   Reconcile ((ex_env ex_work ex_cluster)\<lparr>on_ClientGet := \<lambda>tr req. Inl (Errorf ''context deadline exceeded'')\<rparr>)
       ex_req [] =
     ((\<lparr>Requeue = False, RequeueAfter = 0\<rparr>, Some (Errorf ''context deadline exceeded'')), [ClientGet ex_req])"
  using Reconcile_load_failure[of "ex_env ex_work ex_cluster" "[]" "(''karmada-es-member1'', ''gone'')"
          "StatusError StatusReasonNotFound ''work not found''"]
        Reconcile_load_failure[of "(ex_env ex_work ex_cluster)\<lparr>on_ClientGet := \<lambda>tr req. Inl (Errorf ''context deadline exceeded'')\<rparr>"
          "[]" ex_req "Errorf ''context deadline exceeded''"]
  by (simp add: ex_env_def ex_req_def)

text \<open>
  Claim C9. When the apply pass records no error and the update of the Applied
  condition to True returns an error, \<^verbatim>\<open>syncToClusters\<close> returns that error, although
  every manifest was counted as a success and one \<^verbatim>\<open>Create\<close> or \<^verbatim>\<open>Update\<close> per
  manifest was issued; \<^verbatim>\<open>syncWork\<close> then observes the latency with the error, emits the
  warning event \<open>SyncWorkloadFailed\<close> on the Work and returns the error.
\<close>

theorem syncWork_status_update_failure:
  assumes "syncToClusters_loop env clusterName work (Manifests work) ([], 0, tr) =
             ([], syncSucceedNum, tr1)"
    and "updateAppliedCondition env work ConditionTrue ''AppliedSuccessful''
           ''Manifest has been successfully applied'' tr1 = (Some e, work', tr2)"
  shows
   "syncSucceedNum = length (Manifests work) \<and>
    length (filter is_Apply tr1) = length (filter is_Apply tr) + length (Manifests work) \<and>
    syncToClusters env clusterName work tr = (Some e, work', tr2) \<and>
    syncWork env clusterName work tr =
      ((Result_empty, Some e),
       tr2 @ [ObserveSyncWorkloadLatency (Some e),
              Event work' EventTypeWarning EventReasonSyncWorkloadFailed
                (''Failed to sync work('' @ work_Namespace work' @ ''/'' @ work_Name work' @
                 '') to cluster('' @ clusterName @ ''), err: '' @ Error env e)])"
proof -
  from loop_count[OF assms(1)] have n: "syncSucceedNum = length (Manifests work)" by simp
  from loop_Apply[OF assms(1)] n
  have a: "length (filter is_Apply tr1) = length (filter is_Apply tr) + length (Manifests work)"
    by simp
  from assms have s: "syncToClusters env clusterName work tr = (Some e, work', tr2)"
    by (simp add: syncToClusters_def)
  then have "syncWork env clusterName work tr =
      ((Result_empty, Some e),
       tr2 @ [ObserveSyncWorkloadLatency (Some e),
              Event work' EventTypeWarning EventReasonSyncWorkloadFailed
                (''Failed to sync work('' @ work_Namespace work' @ ''/'' @ work_Name work' @
                 '') to cluster('' @ clusterName @ ''), err: '' @ Error env e)])"
    by (simp add: syncWork_def)
  with n a s show ?thesis by blast
qed

theorem syncWork_status_update_failure_witness:
  "fst (syncToClusters_loop
          ((ex_env ex_work ex_cluster)\<lparr>on_StatusUpdate := \<lambda>tr w. Some (Errorf ''etcdserver: request timed out'')\<rparr>)
          ''member1'' (ex_work\<lparr>Manifests := [''deployment'', ''configmap'']\<rparr>)
          [''deployment'', ''configmap''] ([], 0, [])) = [] \<and>
   fst (syncToClusters
          ((ex_env ex_work ex_cluster)\<lparr>on_StatusUpdate := \<lambda>tr w. Some (Errorf ''etcdserver: request timed out'')\<rparr>)
          ''member1'' (ex_work\<lparr>Manifests := [''deployment'', ''configmap'']\<rparr>) []) =
     Some (Errorf ''etcdserver: request timed out'') \<and>
   fst (syncWork
          ((ex_env ex_work ex_cluster)\<lparr>on_StatusUpdate := \<lambda>tr w. Some (Errorf ''etcdserver: request timed out'')\<rparr>)
          ''member1'' (ex_work\<lparr>Manifests := [''deployment'', ''configmap'']\<rparr>) []) =
     (Result_empty, Some (Errorf ''etcdserver: request timed out'')) \<and>
   length (filter is_Apply (snd (syncWork
          ((ex_env ex_work ex_cluster)\<lparr>on_StatusUpdate := \<lambda>tr w. Some (Errorf ''etcdserver: request timed out'')\<rparr>)
          ''member1'' (ex_work\<lparr>Manifests := [''deployment'', ''configmap'']\<rparr>) []))) = 2"
proof -
  let ?E = "(ex_env ex_work ex_cluster)\<lparr>on_StatusUpdate := \<lambda>tr w. Some (Errorf ''etcdserver: request timed out'')\<rparr>"
  let ?w = "ex_work\<lparr>Manifests := [''deployment'', ''configmap'']\<rparr>"
  let ?l = "syncToClusters_loop ?E ''member1'' ?w (Manifests ?w) ([], 0, [])"
  let ?u = "updateAppliedCondition ?E ?w ConditionTrue ''AppliedSuccessful''
              ''Manifest has been successfully applied'' (snd (snd ?l))"
  have l: "?l = ([], fst (snd ?l), snd (snd ?l))"
    by (simp add: ex_defs syncToClusters_body_def tryCreateOrUpdateWorkload_def eventf_def
        MergeLabel_def GetLabelValue_def KObj_def)
  have "fst ?u = Some (Errorf ''etcdserver: request timed out'')"
    by (simp add: ex_defs updateAppliedCondition_def updateAppliedCondition_fn_def DefaultRetry_def
        Let_def eval_nat_numeral split: sum.splits)
  then have u: "?u = (Some (Errorf ''etcdserver: request timed out''), fst (snd ?u), snd (snd ?u))"
    by (metis prod.collapse)
  note c = syncWork_status_update_failure[OF l u]
  have f: "filter is_Apply (snd (snd ?u)) = filter is_Apply (snd (snd ?l))"
    by (simp add: ex_defs updateAppliedCondition_def updateAppliedCondition_fn_def DefaultRetry_def
        Let_def eval_nat_numeral split: sum.splits)
  have c1: "fst ?l = []" using l by (metis fst_conv)
  have c2: "fst (syncToClusters ?E ''member1'' ?w []) = Some (Errorf ''etcdserver: request timed out'')"
    using c by simp
  have c3: "fst (syncWork ?E ''member1'' ?w []) = (Result_empty, Some (Errorf ''etcdserver: request timed out''))"
    using c by simp
  have c4: "length (filter is_Apply (snd (syncWork ?E ''member1'' ?w []))) = 2"
    using c f by simp
  from c1 c2 c3 c4 show ?thesis by simp
qed

text \<open>
  Claim C10. Let the teardown delete the manifests before some manifest without
  error. If that manifest fails to deserialize, \<^verbatim>\<open>tryDeleteWorkload\<close> returns the error
  with the trace as it stood; if its remote delete fails, it returns that error right
  after the failed \<^verbatim>\<open>Delete\<close>. In both cases the result does not depend on the manifests
  after it: the \<^verbatim>\<open>Delete\<close> effects are those of the manifests before it (and the failed
  one), and \<^verbatim>\<open>Reconcile\<close> returns the error without writing the Work, so the finalizer
  stays. The apply pass on the same sequence goes on to the manifests after it.
\<close>

theorem tryDeleteWorkload_stops_at_first_failure:
  assumes "Manifests work = before @ manifest # after"
    and "tryDeleteWorkload_loop env clusterName before tr = (None, tr1)"
    and "(UnmarshalJSON env manifest = Inl e \<and> tr2 = tr1) \<or>
         (\<exists>workload. UnmarshalJSON env manifest = Inr workload \<and>
            on_Delete env tr1 clusterName workload = Some e \<and>
            tr2 = tr1 @ [Delete clusterName workload])"
  shows
   "tryDeleteWorkload env clusterName work tr = (Some e, tr2) \<and>
    tryDeleteWorkload env clusterName (work\<lparr>Manifests := before @ [manifest]\<rparr>) tr = (Some e, tr2) \<and>
    length (filter is_Delete tr1) = length (filter is_Delete tr) + length before \<and>
    length (filter is_Delete tr2) \<le> length (filter is_Delete tr) + length before + 1 \<and>
    (\<forall>req tr0 cluster.
       tr = tr0 @ [ClientGet req, GetCluster clusterName] \<and>
       on_ClientGet env tr0 req = Inr work \<and>
       GetClusterName env (work_Namespace work) = Inr clusterName \<and>
       on_GetCluster env (tr0 @ [ClientGet req]) clusterName = Inr cluster \<and>
       \<not> IsZero (work_DeletionTimestamp work) \<and> IsClusterReady cluster \<longrightarrow>
       Reconcile env req tr0 = ((Result_empty, Some e), tr2) \<and>
       filter is_ClientUpdate tr2 = filter is_ClientUpdate tr0) \<and>
    (\<forall>s. syncToClusters_loop env clusterName work (Manifests work) s =
          syncToClusters_loop env clusterName work after
            (syncToClusters_body env clusterName work manifest
               (syncToClusters_loop env clusterName work before s)))"
proof -
  have one: "tryDeleteWorkload_loop env clusterName (manifest # ms) tr1 = (Some e, tr2)" for ms
    using assms(3) by auto
  have stop: "tryDeleteWorkload_loop env clusterName (before @ manifest # ms) tr = (Some e, tr2)" for ms
    unfolding tryDeleteWorkload_loop_append assms(2) using one[of ms] by simp
  have a: "tryDeleteWorkload env clusterName work tr = (Some e, tr2)"
    unfolding tryDeleteWorkload_def assms(1) by (rule stop)
  have b: "tryDeleteWorkload env clusterName (work\<lparr>Manifests := before @ [manifest]\<rparr>) tr = (Some e, tr2)"
    unfolding tryDeleteWorkload_def using stop[of "[]"] by simp
  note c = tryDeleteWorkload_loop_None[OF assms(2)]
  have d: "length (filter is_Delete tr2) \<le> length (filter is_Delete tr) + length before + 1"
    using assms(3) c by auto
  have cu: "filter is_ClientUpdate tr2 = filter is_ClientUpdate tr"
    using a unfolding tryDeleteWorkload_def by (rule tryDeleteWorkload_loop_CU)
  have r: "Reconcile env req tr0 = ((Result_empty, Some e), tr2) \<and>
       filter is_ClientUpdate tr2 = filter is_ClientUpdate tr0"
    if "tr = tr0 @ [ClientGet req, GetCluster clusterName]"
       "on_ClientGet env tr0 req = Inr work"
       "GetClusterName env (work_Namespace work) = Inr clusterName"
       "on_GetCluster env (tr0 @ [ClientGet req]) clusterName = Inr cluster"
       "\<not> IsZero (work_DeletionTimestamp work)" "IsClusterReady cluster"
    for req tr0 cluster
    using that a cu by (simp add: Reconcile_def Let_def)
  have l: "syncToClusters_loop env clusterName work (Manifests work) s =
          syncToClusters_loop env clusterName work after
            (syncToClusters_body env clusterName work manifest
               (syncToClusters_loop env clusterName work before s))" for s
    unfolding assms(1) loop_append by simp
  from a b c d r l show ?thesis by blast
qed


theorem tryDeleteWorkload_stops_at_first_failure_witness:
  "Reconcile (ex_env (ex_work\<lparr>work_DeletionTimestamp := Some 100,
                               Manifests := [''deployment'', ''not json'', ''configmap'']\<rparr>)
                ex_cluster) ex_req [] =
     ((Result_empty, Some (Errorf ''invalid character'')),
      [ClientGet ex_req, GetCluster ''member1'', Delete ''member1'' ex_deployment]) \<and>
   Reconcile ((ex_env (ex_work\<lparr>work_DeletionTimestamp := Some 100,
                                Manifests := [''configmap'', ''deployment'']\<rparr>)
                 ex_cluster)
                \<lparr>on_Delete := \<lambda>tr c object. if obj_Name object = ''conf''
                                              then Some (Errorf ''forbidden'') else None\<rparr>)
       ex_req [] =
     ((Result_empty, Some (Errorf ''forbidden'')),
      [ClientGet ex_req, GetCluster ''member1'', Delete ''member1'' ex_configmap])"
proof -
  let ?wa = "ex_work\<lparr>work_DeletionTimestamp := Some 100,
                      Manifests := [''deployment'', ''not json'', ''configmap'']\<rparr>"
  let ?wb = "ex_work\<lparr>work_DeletionTimestamp := Some 100,
                      Manifests := [''configmap'', ''deployment'']\<rparr>"
  let ?EA = "ex_env ?wa ex_cluster"
  let ?EB = "(ex_env ?wb ex_cluster)
                \<lparr>on_Delete := \<lambda>tr c object. if obj_Name object = ''conf''
                                              then Some (Errorf ''forbidden'') else None\<rparr>"
  let ?t = "[ClientGet ex_req, GetCluster ''member1'']"
  have ma: "Manifests ?wa = [''deployment''] @ ''not json'' # [''configmap'']" by simp
  have mb: "Manifests ?wb = [] @ ''configmap'' # [''deployment'']" by simp
  have ba: "tryDeleteWorkload_loop ?EA ''member1'' [''deployment''] ?t =
              (None, ?t @ [Delete ''member1'' ex_deployment])"
    by (simp add: ex_env_def)
  have bb: "tryDeleteWorkload_loop ?EB ''member1'' [] ?t = (None, ?t)" by simp
  have fa: "(UnmarshalJSON ?EA ''not json'' = Inl (Errorf ''invalid character'') \<and>
             ?t @ [Delete ''member1'' ex_deployment] = ?t @ [Delete ''member1'' ex_deployment]) \<or>
            (\<exists>workload. UnmarshalJSON ?EA ''not json'' = Inr workload \<and>
               on_Delete ?EA (?t @ [Delete ''member1'' ex_deployment]) ''member1'' workload =
                 Some (Errorf ''invalid character'') \<and>
               ?t @ [Delete ''member1'' ex_deployment] =
                 (?t @ [Delete ''member1'' ex_deployment]) @ [Delete ''member1'' workload])"
    by (simp add: ex_env_def)
  have fb: "(UnmarshalJSON ?EB ''configmap'' = Inl (Errorf ''forbidden'') \<and>
             ?t @ [Delete ''member1'' ex_configmap] = ?t) \<or>
            (\<exists>workload. UnmarshalJSON ?EB ''configmap'' = Inr workload \<and>
               on_Delete ?EB ?t ''member1'' workload = Some (Errorf ''forbidden'') \<and>
               ?t @ [Delete ''member1'' ex_configmap] = ?t @ [Delete ''member1'' workload])"
    by (simp add: ex_env_def ex_configmap_def)
  have la: "?t = [] @ [ClientGet ex_req, GetCluster ''member1''] \<and>
       on_ClientGet ?EA [] ex_req = Inr ?wa \<and>
       GetClusterName ?EA (work_Namespace ?wa) = Inr ''member1'' \<and>
       on_GetCluster ?EA ([] @ [ClientGet ex_req]) ''member1'' = Inr ex_cluster \<and>
       \<not> IsZero (work_DeletionTimestamp ?wa) \<and> IsClusterReady ex_cluster"
    by (simp add: ex_env_def ex_work_def ex_cluster_def IsZero_def IsClusterReady_def)
  have lb: "?t = [] @ [ClientGet ex_req, GetCluster ''member1''] \<and>
       on_ClientGet ?EB [] ex_req = Inr ?wb \<and>
       GetClusterName ?EB (work_Namespace ?wb) = Inr ''member1'' \<and>
       on_GetCluster ?EB ([] @ [ClientGet ex_req]) ''member1'' = Inr ex_cluster \<and>
       \<not> IsZero (work_DeletionTimestamp ?wb) \<and> IsClusterReady ex_cluster"
    by (simp add: ex_env_def ex_work_def ex_cluster_def IsZero_def IsClusterReady_def)
  from tryDeleteWorkload_stops_at_first_failure[OF ma ba fa] la
  have a: "Reconcile ?EA ex_req [] =
     ((Result_empty, Some (Errorf ''invalid character'')), ?t @ [Delete ''member1'' ex_deployment])"
    by blast
  from tryDeleteWorkload_stops_at_first_failure[OF mb bb fb] lb
  have b: "Reconcile ?EB ex_req [] =
     ((Result_empty, Some (Errorf ''forbidden'')), ?t @ [Delete ''member1'' ex_configmap])"
    by blast
  from a b show ?thesis by simp
qed

end
